theory Spec2Isabelle
  imports Main "HOL-Library.AList"
begin

section \<open>The NeuraX signaling server: session pairing and relay\<close>

text \<open>
  A shallow embedding of \<^verbatim>\<open>server/server.py\<close>. Every Socket.IO handler becomes a
  function from the caller's connection identifier (\<^verbatim>\<open>request.sid\<close>), the event payload
  and the server state to either a Python exception or the new state together with the
  events the handler sends.
\<close>

subsection \<open>Payload values\<close>

text \<open>
  The payload of an event is a decoded JSON object: a Python \<^verbatim>\<open>dict\<close> whose values are
  \<^verbatim>\<open>None\<close>, booleans, integers, strings, lists or dictionaries. Floating-point numbers
  are left out of the model.
\<close>

datatype json =
    JNull
  | JBool bool
  | JInt int
  | JStr string
  | JList "json list"
  | JDict "(string \<times> json) list"

type_synonym payload = "(string \<times> json) list"

text \<open>Python truthiness, as tested by \<^verbatim>\<open>not session_id\<close>.\<close>

fun truthy :: "json \<Rightarrow> bool" where
  "truthy JNull = False"
| "truthy (JBool b) = b"
| "truthy (JInt n) = (n \<noteq> 0)"
| "truthy (JStr s) = (s \<noteq> [])"
| "truthy (JList xs) = (xs \<noteq> [])"
| "truthy (JDict kvs) = (kvs \<noteq> [])"

text \<open>\<^verbatim>\<open>data.get(name)\<close>: the value stored under the name, \<^verbatim>\<open>None\<close> when it is absent.\<close>

definition payload_get :: "payload \<Rightarrow> string \<Rightarrow> json" where
  "payload_get data name = (case map_of data name of None \<Rightarrow> JNull | Some v \<Rightarrow> v)"

subsection \<open>Dictionary keys\<close>

text \<open>
  \<^verbatim>\<open>active_sessions\<close> is a dictionary keyed by whatever value the caller sent as
  \<^verbatim>\<open>session_id\<close>. Python keys are compared by \<^verbatim>\<open>==\<close> on hashable values, so \<^verbatim>\<open>True\<close> and
  \<^verbatim>\<open>1\<close> name the same entry; lists and dictionaries are unhashable and every dictionary
  operation on them raises \<^verbatim>\<open>TypeError\<close>.
\<close>

datatype key = KNone | KInt int | KStr string

fun hash_key :: "json \<Rightarrow> key option" where
  "hash_key JNull = Some KNone"
| "hash_key (JBool b) = Some (KInt (if b then 1 else 0))"
| "hash_key (JInt n) = Some (KInt n)"
| "hash_key (JStr s) = Some (KStr s)"
| "hash_key (JList xs) = None"
| "hash_key (JDict kvs) = None"

datatype error = TypeError | KeyError | ValueError

subsection \<open>Server state\<close>

type_synonym sid = string

text \<open>
  A session record is the inner dictionary of \<^verbatim>\<open>active_sessions\<close>, with the two keys
  \<^verbatim>\<open>'client_id'\<close> and \<^verbatim>\<open>'compute_id'\<close>, each of them present or not.
\<close>

record session =
  client_id :: "sid option"
  compute_id :: "sid option"

definition empty_session :: session where
  "empty_session = \<lparr>client_id = None, compute_id = None\<rparr>"

text \<open>
  The state is the global dictionary \<^verbatim>\<open>active_sessions\<close>, in insertion order, and what
  the Socket.IO transport keeps: the rooms, which the handlers change through
  \<^verbatim>\<open>join_room\<close>, and the identifiers of the live connections.
\<close>

record server =
  active_sessions :: "(key \<times> session) list"
  rooms :: "(key \<times> sid list) list"
  sids :: "sid list"

definition init :: server where
  "init = \<lparr>active_sessions = [], rooms = [], sids = []\<rparr>"

definition members :: "(key \<times> sid list) list \<Rightarrow> key \<Rightarrow> sid list" where
  "members rs room = (case map_of rs room of None \<Rightarrow> [] | Some ms \<Rightarrow> ms)"

definition enter_room :: "sid \<Rightarrow> key \<Rightarrow> (key \<times> sid list) list \<Rightarrow> (key \<times> sid list) list" where
  "enter_room c room rs = AList.update room (List.insert c (members rs room)) rs"

text \<open>
  Rooms and connection identifiers share one namespace: every live connection has the
  room named by its identifier, and the transport refuses to put another connection
  into that room.
\<close>

definition sid_room_of_other :: "sid \<Rightarrow> key \<Rightarrow> server \<Rightarrow> bool" where
  "sid_room_of_other c room st =
     (case room of KStr r \<Rightarrow> r \<noteq> c \<and> r \<in> set (sids st) | _ \<Rightarrow> False)"

text \<open>
  \<^verbatim>\<open>join_room(session_id)\<close>: the calling connection becomes a member of the room, or the
  call raises \<^verbatim>\<open>ValueError\<close> when the room is the one of another live connection. A
  connection that names its own room is a member of it already.
\<close>

definition join_room :: "sid \<Rightarrow> key \<Rightarrow> server \<Rightarrow> error + server" where
  "join_room c room st =
     (if sid_room_of_other c room st then Inl ValueError
      else Inr (st\<lparr>rooms := enter_room c room (rooms st)\<rparr>))"

text \<open>
  What a handler sends: \<^verbatim>\<open>emit(event, payload)\<close> answers the calling connection alone,
  \<^verbatim>\<open>socketio.emit(event, payload, room=session_id)\<close> goes to every member of the room.
\<close>

datatype out =
    Emit sid string payload
  | Broadcast key string payload

fun recipients :: "server \<Rightarrow> out \<Rightarrow> sid set" where
  "recipients st (Emit c ev p) = {c}"
| "recipients st (Broadcast room ev p) = set (members (rooms st) room)"

definition error_event :: "sid \<Rightarrow> string \<Rightarrow> out" where
  "error_event c msg = Emit c ''error'' [(''message'', JStr msg)]"

text \<open>
  A handler either returns, with the state it leaves and the events it has sent, or
  raises, with the state it leaves: nothing in the source catches an exception, and a
  handler that raises after a write leaves the write in place.
\<close>

type_synonym result = "(error \<times> server) + (server \<times> out list)"

fun state_after :: "result \<Rightarrow> server" where
  "state_after (Inl (e, st)) = st"
| "state_after (Inr (st, outs)) = st"

fun outputs :: "result \<Rightarrow> out list" where
  "outputs (Inl (e, st)) = []"
| "outputs (Inr (st, outs)) = outs"

subsection \<open>Connection lifecycle\<close>

definition handle_connect :: "sid \<Rightarrow> server \<Rightarrow> result" where
  "handle_connect c st =
     Inr (st, [Emit c ''connected''
                 [(''message'', JStr ''Connected to NeuraX signaling server'')]])"

text \<open>
  The first loop of \<^verbatim>\<open>handle_disconnect\<close> walks \<^verbatim>\<open>active_sessions.items()\<close> and appends
  the identifiers to delete; the second loop deletes them, and \<^verbatim>\<open>del\<close> raises
  \<^verbatim>\<open>KeyError\<close> on a key that is not in the dictionary, the deletions before it done.
\<close>

fun collect_sessions :: "sid \<Rightarrow> (key \<times> session) list \<Rightarrow> key list \<Rightarrow> key list" where
  "collect_sessions c [] sessions_to_remove = sessions_to_remove"
| "collect_sessions c ((session_id, session_data) # items) sessions_to_remove =
     collect_sessions c items
       (if client_id session_data = Some c \<or> compute_id session_data = Some c
        then sessions_to_remove @ [session_id] else sessions_to_remove)"

fun remove_sessions ::
  "key list \<Rightarrow> (key \<times> session) list \<Rightarrow> (error \<times> (key \<times> session) list) + (key \<times> session) list" where
  "remove_sessions [] sessions = Inr sessions"
| "remove_sessions (session_id # rest) sessions =
     (case map_of sessions session_id of
        None \<Rightarrow> Inl (KeyError, sessions)
      | Some _ \<Rightarrow> remove_sessions rest (AList.delete session_id sessions))"

definition handle_disconnect :: "sid \<Rightarrow> server \<Rightarrow> result" where
  "handle_disconnect c st =
     (case remove_sessions (collect_sessions c (active_sessions st) []) (active_sessions st) of
        Inl (e, sessions) \<Rightarrow> Inl (e, st\<lparr>active_sessions := sessions\<rparr>)
      | Inr sessions \<Rightarrow> Inr (st\<lparr>active_sessions := sessions\<rparr>, []))"

subsection \<open>Registration\<close>

definition handle_create_session :: "sid \<Rightarrow> payload \<Rightarrow> server \<Rightarrow> result" where
  "handle_create_session c data st =
     (let session_id = payload_get data ''session_id'' in
      if \<not> truthy session_id then Inr (st, [error_event c ''session_id required''])
      else
        case hash_key session_id of
          None \<Rightarrow> Inl (TypeError, st)
        | Some k \<Rightarrow>
            let sessions =
                  (if map_of (active_sessions st) k = None
                   then AList.update k empty_session (active_sessions st)
                   else active_sessions st);
                sessions = AList.map_entry k (\<lambda>s. s\<lparr>client_id := Some c\<rparr>) sessions;
                st1 = st\<lparr>active_sessions := sessions\<rparr>
            in (case join_room c k st1 of
                  Inl e \<Rightarrow> Inl (e, st1)
                | Inr st2 \<Rightarrow>
                    Inr (st2, [Emit c ''session_created'' [(''session_id'', session_id)]])))"

definition handle_join_as_compute :: "sid \<Rightarrow> payload \<Rightarrow> server \<Rightarrow> result" where
  "handle_join_as_compute c data st =
     (let session_id = payload_get data ''session_id'' in
      if \<not> truthy session_id then Inr (st, [error_event c ''session_id required''])
      else
        case hash_key session_id of
          None \<Rightarrow> Inl (TypeError, st)
        | Some k \<Rightarrow>
            if map_of (active_sessions st) k = None
            then Inr (st, [error_event c ''Session not found''])
            else
              let st1 = st\<lparr>active_sessions :=
                           AList.map_entry k (\<lambda>s. s\<lparr>compute_id := Some c\<rparr>)
                             (active_sessions st)\<rparr>
              in (case join_room c k st1 of
                    Inl e \<Rightarrow> Inl (e, st1)
                  | Inr st2 \<Rightarrow>
                      Inr (st2, [Emit c ''joined''
                                   [(''role'', JStr ''compute''), (''session_id'', session_id)]])))"

subsection \<open>Relay\<close>

text \<open>\<^verbatim>\<open>active_sessions.get(session_id, {})\<close>: the session record, an empty one when absent.\<close>

definition session_of :: "server \<Rightarrow> key \<Rightarrow> session" where
  "session_of st k = (case map_of (active_sessions st) k of None \<Rightarrow> empty_session | Some s \<Rightarrow> s)"

definition handle_offer :: "sid \<Rightarrow> payload \<Rightarrow> server \<Rightarrow> result" where
  "handle_offer c data st =
     (let session_id = payload_get data ''session_id'';
          offer = payload_get data ''offer'' in
      if \<not> truthy session_id \<or> \<not> truthy offer
      then Inr (st, [error_event c ''session_id and offer required''])
      else
        case hash_key session_id of
          None \<Rightarrow> Inl (TypeError, st)
        | Some k \<Rightarrow>
            if client_id (session_of st k) \<noteq> Some c
            then Inr (st, [error_event c ''Unauthorized: not client for this session''])
            else Inr (st, [Broadcast k ''offer''
                             [(''session_id'', session_id), (''offer'', offer),
                              (''from'', JStr c)]]))"

definition handle_answer :: "sid \<Rightarrow> payload \<Rightarrow> server \<Rightarrow> result" where
  "handle_answer c data st =
     (let session_id = payload_get data ''session_id'';
          answer = payload_get data ''answer'' in
      if \<not> truthy session_id \<or> \<not> truthy answer
      then Inr (st, [error_event c ''session_id and answer required''])
      else
        case hash_key session_id of
          None \<Rightarrow> Inl (TypeError, st)
        | Some k \<Rightarrow>
            if compute_id (session_of st k) \<noteq> Some c
            then Inr (st, [error_event c ''Unauthorized: not compute for this session''])
            else Inr (st, [Broadcast k ''answer''
                             [(''session_id'', session_id), (''answer'', answer),
                              (''from'', JStr c)]]))"

definition handle_ice_candidate :: "sid \<Rightarrow> payload \<Rightarrow> server \<Rightarrow> result" where
  "handle_ice_candidate c data st =
     (let session_id = payload_get data ''session_id'';
          candidate = payload_get data ''candidate'' in
      if \<not> truthy session_id \<or> \<not> truthy candidate
      then Inr (st, [error_event c ''session_id and candidate required''])
      else
        case hash_key session_id of
          None \<Rightarrow> Inl (TypeError, st)
        | Some k \<Rightarrow>
            let session_data = session_of st k in
            if client_id session_data \<noteq> Some c \<and> compute_id session_data \<noteq> Some c
            then Inr (st, [error_event c ''Unauthorized: not in this session''])
            else Inr (st, [Broadcast k ''ice_candidate''
                             [(''session_id'', session_id), (''candidate'', candidate),
                              (''from'', JStr c)]]))"

subsection \<open>The server as a transition system\<close>

datatype event =
    Connect sid
  | Disconnect sid
  | CreateSession sid payload
  | JoinAsCompute sid payload
  | Offer sid payload
  | Answer sid payload
  | IceCandidate sid payload

text \<open>
  The transport's part of a connection's life. Opening a connection makes it live and
  puts it in the room named by its identifier, before the connect handler runs. Closing
  it runs the disconnect handler and then takes the connection out of every room.
\<close>

definition open_connection :: "sid \<Rightarrow> server \<Rightarrow> server" where
  "open_connection c st =
     st\<lparr>rooms := enter_room c (KStr c) (rooms st), sids := List.insert c (sids st)\<rparr>"

definition leave_rooms :: "sid \<Rightarrow> (key \<times> sid list) list \<Rightarrow> (key \<times> sid list) list" where
  "leave_rooms c rs = map (\<lambda>(room, ms). (room, removeAll c ms)) rs"

definition close_connection :: "sid \<Rightarrow> server \<Rightarrow> server" where
  "close_connection c st =
     st\<lparr>rooms := leave_rooms c (rooms st), sids := removeAll c (sids st)\<rparr>"

fun step :: "server \<Rightarrow> event \<Rightarrow> result" where
  "step st (Connect c) = handle_connect c (open_connection c st)"
| "step st (Disconnect c) =
     (case handle_disconnect c st of
        Inl (e, st') \<Rightarrow> Inl (e, close_connection c st')
      | Inr (st', outs) \<Rightarrow> Inr (close_connection c st', outs))"
| "step st (CreateSession c data) = handle_create_session c data st"
| "step st (JoinAsCompute c data) = handle_join_as_compute c data st"
| "step st (Offer c data) = handle_offer c data st"
| "step st (Answer c data) = handle_answer c data st"
| "step st (IceCandidate c data) = handle_ice_candidate c data st"

text \<open>
  A run of the server over a sequence of events: the next handler starts from the state
  the one before has left, whether it returned or raised. The trace of a run pairs
  every event with the events the server sent in answer.
\<close>

fun run :: "server \<Rightarrow> event list \<Rightarrow> server" where
  "run st [] = st"
| "run st (ev # evs) = run (state_after (step st ev)) evs"

fun trace :: "server \<Rightarrow> event list \<Rightarrow> (event \<times> out list) list" where
  "trace st [] = []"
| "trace st (ev # evs) = (ev, outputs (step st ev)) # trace (state_after (step st ev)) evs"

subsection \<open>Vocabulary of the specification\<close>

text \<open>
  The stored roles of the session named by a key: \<open>None\<close> when the store has no session
  under the key or the session has nobody in the role.
\<close>

definition client_connection :: "server \<Rightarrow> key \<Rightarrow> sid option" where
  "client_connection st k =
     (case map_of (active_sessions st) k of None \<Rightarrow> None | Some s \<Rightarrow> client_id s)"

definition compute_connection :: "server \<Rightarrow> key \<Rightarrow> sid option" where
  "compute_connection st k =
     (case map_of (active_sessions st) k of None \<Rightarrow> None | Some s \<Rightarrow> compute_id s)"

text \<open>The connections currently paired under a session: its client and its compute node.\<close>

definition paired_connections :: "server \<Rightarrow> key \<Rightarrow> sid set" where
  "paired_connections st k =
     set_option (client_connection st k) \<union> set_option (compute_connection st k)"

text \<open>A connection occupies a session when it holds the client or the compute role.\<close>

definition occupies :: "sid \<Rightarrow> session \<Rightarrow> bool" where
  "occupies c s = (client_id s = Some c \<or> compute_id s = Some c)"

text \<open>A dictionary holds every key once.\<close>

definition unique_keys :: "server \<Rightarrow> bool" where
  "unique_keys st = distinct (map fst (active_sessions st))"

text \<open>Every record of the store has its client role populated.\<close>

definition client_populated :: "server \<Rightarrow> bool" where
  "client_populated st = (\<forall>e \<in> set (active_sessions st). client_id (snd e) \<noteq> None)"

text \<open>
  The room a registration was confirmed for: the room of the submitted session
  identifier when the answer to a \<^verbatim>\<open>create_session\<close> is the \<^verbatim>\<open>session_created\<close>
  confirmation, or the answer to a \<^verbatim>\<open>join_as_compute\<close> the \<^verbatim>\<open>joined\<close> confirmation.
\<close>

fun confirmed_room :: "event \<Rightarrow> out list \<Rightarrow> key option" where
  "confirmed_room (CreateSession c data) outs =
     (if outs = [Emit c ''session_created'' [(''session_id'', payload_get data ''session_id'')]]
      then hash_key (payload_get data ''session_id'') else None)"
| "confirmed_room (JoinAsCompute c data) outs =
     (if outs = [Emit c ''joined'' [(''role'', JStr ''compute''),
                                   (''session_id'', payload_get data ''session_id'')]]
      then hash_key (payload_get data ''session_id'') else None)"
| "confirmed_room ev outs = None"

text \<open>
  The members of a room as the specification describes them, read off what the
  connections did and were answered: a connection joins the room of a session by a
  registration that is confirmed, it joins the room named by its own identifier when it
  connects, and it leaves every room when it disconnects. Nothing else changes a room.
\<close>

fun joined_step :: "key \<Rightarrow> event \<times> out list \<Rightarrow> sid set \<Rightarrow> sid set" where
  "joined_step room (Connect c, outs) ms = (if room = KStr c then insert c ms else ms)"
| "joined_step room (Disconnect c, outs) ms = ms - {c}"
| "joined_step room (CreateSession c data, outs) ms =
     (if confirmed_room (CreateSession c data) outs = Some room then insert c ms else ms)"
| "joined_step room (JoinAsCompute c data, outs) ms =
     (if confirmed_room (JoinAsCompute c data) outs = Some room then insert c ms else ms)"
| "joined_step room (ev, outs) ms = ms"

fun joined :: "key \<Rightarrow> (event \<times> out list) list \<Rightarrow> sid set \<Rightarrow> sid set" where
  "joined room [] ms = ms"
| "joined room (x # xs) ms = joined room xs (joined_step room x ms)"

subsection \<open>Example states and payloads\<close>

definition s1_payload :: payload where
  "s1_payload = [(''session_id'', JStr ''s1'')]"

definition s2_payload :: payload where
  "s2_payload = [(''session_id'', JStr ''s2'')]"

text \<open>A session identifier that is the connection identifier of \<open>A\<close>.\<close>

definition sid_payload :: payload where
  "sid_payload = [(''session_id'', JStr ''A'')]"

definition relay_payload :: payload where
  "relay_payload =
     [(''session_id'', JStr ''s1''), (''offer'', JStr ''SDP-OFFER''),
      (''answer'', JStr ''SDP-ANSWER''), (''candidate'', JDict [(''sdpMid'', JStr ''0'')])]"

text \<open>The rooms of the three connected clients \<open>A\<close>, \<open>B\<close> and \<open>C\<close>.\<close>

definition sid_rooms :: "(key \<times> sid list) list" where
  "sid_rooms = [(KStr ''A'', [''A'']), (KStr ''B'', [''B'']), (KStr ''C'', [''C''])]"

text \<open>Three connections and no session.\<close>

definition lobby :: server where
  "lobby = \<lparr>active_sessions = [], rooms = sid_rooms, sids = [''C'', ''B'', ''A'']\<rparr>"

text \<open>Session \<open>s1\<close> after its creation by \<open>A\<close>.\<close>

definition created :: server where
  "created =
     \<lparr>active_sessions = [(KStr ''s1'', \<lparr>client_id = Some ''A'', compute_id = None\<rparr>)],
      rooms = sid_rooms @ [(KStr ''s1'', [''A''])],
      sids = [''C'', ''B'', ''A'']\<rparr>"

text \<open>Session \<open>s1\<close> with client \<open>A\<close> and compute node \<open>B\<close>.\<close>

definition paired :: server where
  "paired =
     \<lparr>active_sessions = [(KStr ''s1'', \<lparr>client_id = Some ''A'', compute_id = Some ''B''\<rparr>)],
      rooms = sid_rooms @ [(KStr ''s1'', [''B'', ''A''])],
      sids = [''C'', ''B'', ''A'']\<rparr>"

text \<open>Session \<open>s1\<close> after \<open>A\<close> created it and \<open>B\<close> created it again.\<close>

definition displaced :: server where
  "displaced =
     \<lparr>active_sessions = [(KStr ''s1'', \<lparr>client_id = Some ''B'', compute_id = None\<rparr>)],
      rooms = sid_rooms @ [(KStr ''s1'', [''B'', ''A''])],
      sids = [''C'', ''B'', ''A'']\<rparr>"

text \<open>Two sessions, and the state the handler for the disconnect of \<open>A\<close> leaves.\<close>

definition two_sessions :: server where
  "two_sessions =
     \<lparr>active_sessions =
        [(KStr ''s1'', \<lparr>client_id = Some ''A'', compute_id = Some ''B''\<rparr>),
         (KStr ''s2'', \<lparr>client_id = Some ''C'', compute_id = None\<rparr>)],
      rooms = sid_rooms @ [(KStr ''s1'', [''B'', ''A'']), (KStr ''s2'', [''C''])],
      sids = [''C'', ''B'', ''A'']\<rparr>"

definition after_disconnect :: server where
  "after_disconnect =
     \<lparr>active_sessions = [(KStr ''s2'', \<lparr>client_id = Some ''C'', compute_id = None\<rparr>)],
      rooms = sid_rooms @ [(KStr ''s1'', [''B'', ''A'']), (KStr ''s2'', [''C''])],
      sids = [''C'', ''B'', ''A'']\<rparr>"

text \<open>
  The state after \<open>B\<close> asked for a session named by the identifier of \<open>A\<close>, and the one
  after \<open>C\<close> asked to join it: the roles are written and nobody entered the room.
\<close>

definition squatted :: server where
  "squatted =
     \<lparr>active_sessions = [(KStr ''A'', \<lparr>client_id = Some ''B'', compute_id = None\<rparr>)],
      rooms = sid_rooms, sids = [''C'', ''B'', ''A'']\<rparr>"


section \<open>Properties\<close>

subsection \<open>The example states are reachable\<close>

lemmas run_defs =
  init_def handle_connect_def open_connection_def close_connection_def
  handle_create_session_def handle_join_as_compute_def handle_disconnect_def
  join_room_def sid_room_of_other_def enter_room_def leave_rooms_def members_def
  payload_get_def empty_session_def

lemma lobby_reachable: "run init [Connect ''A'', Connect ''B'', Connect ''C''] = lobby"
  by (simp add: run_defs lobby_def sid_rooms_def)

lemma created_reachable: "run lobby [CreateSession ''A'' s1_payload] = created"
  by (simp add: run_defs lobby_def created_def sid_rooms_def s1_payload_def)

lemma paired_reachable: "run created [JoinAsCompute ''B'' s1_payload] = paired"
  by (simp add: run_defs created_def paired_def sid_rooms_def s1_payload_def)

lemma displaced_reachable: "run created [CreateSession ''B'' s1_payload] = displaced"
  by (simp add: run_defs created_def displaced_def sid_rooms_def s1_payload_def)

lemma two_sessions_reachable: "run paired [CreateSession ''C'' s2_payload] = two_sessions"
  by (simp add: run_defs paired_def two_sessions_def sid_rooms_def s2_payload_def)


lemma run_append: "run st (evs @ evs') = run (run st evs) evs'"
  by (induction evs arbitrary: st) simp_all

subsection \<open>Session identifiers that cannot be dictionary keys\<close>

text \<open>
  A non-empty list or dictionary sent as \<^verbatim>\<open>session_id\<close> passes the truthiness test and
  makes the first dictionary operation raise: the handler sends nothing and the state is
  the one before the call.
\<close>

lemma unhashable_session_id_raises:
  assumes "truthy (payload_get data ''session_id'')"
      and "hash_key (payload_get data ''session_id'') = None"
  shows "handle_create_session c data st = Inl (TypeError, st)"
    and "handle_join_as_compute c data st = Inl (TypeError, st)"
    and "truthy (payload_get data ''offer'') \<Longrightarrow> handle_offer c data st = Inl (TypeError, st)"
    and "truthy (payload_get data ''answer'') \<Longrightarrow> handle_answer c data st = Inl (TypeError, st)"
    and "truthy (payload_get data ''candidate'') \<Longrightarrow>
           handle_ice_candidate c data st = Inl (TypeError, st)"
  using assms
  by (simp_all add: handle_create_session_def handle_join_as_compute_def handle_offer_def
        handle_answer_def handle_ice_candidate_def)

lemma string_session_id_hashable:
  "payload_get data ''session_id'' = JStr s \<Longrightarrow>
     hash_key (payload_get data ''session_id'') = Some (KStr s) \<and>
     truthy (payload_get data ''session_id'') = (s \<noteq> [])"
  by simp

subsection \<open>Relay: validation, then authorization, then broadcast\<close>

lemma client_id_session_of: "client_id (session_of st k) = client_connection st k"
  by (simp add: session_of_def client_connection_def empty_session_def split: option.split)

lemma compute_id_session_of: "compute_id (session_of st k) = compute_connection st k"
  by (simp add: session_of_def compute_connection_def empty_session_def split: option.split)

lemma handle_offer_checked:
  assumes "truthy (payload_get data ''session_id'')" "truthy (payload_get data ''offer'')"
      and "hash_key (payload_get data ''session_id'') = Some k"
  shows "handle_offer c data st =
           (if client_connection st k = Some c
            then Inr (st, [Broadcast k ''offer''
                    [(''session_id'', payload_get data ''session_id''),
                     (''offer'', payload_get data ''offer''), (''from'', JStr c)]])
            else Inr (st, [error_event c ''Unauthorized: not client for this session'']))"
  using assms by (simp add: handle_offer_def client_id_session_of)

lemma handle_answer_checked:
  assumes "truthy (payload_get data ''session_id'')" "truthy (payload_get data ''answer'')"
      and "hash_key (payload_get data ''session_id'') = Some k"
  shows "handle_answer c data st =
           (if compute_connection st k = Some c
            then Inr (st, [Broadcast k ''answer''
                    [(''session_id'', payload_get data ''session_id''),
                     (''answer'', payload_get data ''answer''), (''from'', JStr c)]])
            else Inr (st, [error_event c ''Unauthorized: not compute for this session'']))"
  using assms by (simp add: handle_answer_def compute_id_session_of)

lemma handle_ice_candidate_checked:
  assumes "truthy (payload_get data ''session_id'')" "truthy (payload_get data ''candidate'')"
      and "hash_key (payload_get data ''session_id'') = Some k"
  shows "handle_ice_candidate c data st =
           (if client_connection st k = Some c \<or> compute_connection st k = Some c
            then Inr (st, [Broadcast k ''ice_candidate''
                    [(''session_id'', payload_get data ''session_id''),
                     (''candidate'', payload_get data ''candidate''), (''from'', JStr c)]])
            else Inr (st, [error_event c ''Unauthorized: not in this session'']))"
  using assms
  by (simp add: handle_ice_candidate_def client_id_session_of compute_id_session_of Let_def)

text \<open>
  Claim C1. A relay event whose required fields are present, with a session identifier
  that can be a dictionary key (a string, as the data model has it; a number or a boolean
  too), is authorized by exact match of the sender against the stored role: an offer is
  broadcast to the room if and only if the sender is the stored client of the named
  session, an answer if and only if the sender is the stored compute node, an ICE
  candidate if and only if the sender is either of them. Every other sender gets the
  \<^verbatim>\<open>Unauthorized\<close> error event, and nothing is broadcast.
\<close>

theorem relay_authorization_exact_match:
  assumes "truthy (payload_get data ''session_id'')"
      and "hash_key (payload_get data ''session_id'') = Some k"
  shows "(truthy (payload_get data ''offer'') \<longrightarrow>
            handle_offer c data st =
              (if client_connection st k = Some c
               then Inr (st, [Broadcast k ''offer''
                       [(''session_id'', payload_get data ''session_id''),
                        (''offer'', payload_get data ''offer''), (''from'', JStr c)]])
               else Inr (st, [error_event c ''Unauthorized: not client for this session'']))) \<and>
         (truthy (payload_get data ''answer'') \<longrightarrow>
            handle_answer c data st =
              (if compute_connection st k = Some c
               then Inr (st, [Broadcast k ''answer''
                       [(''session_id'', payload_get data ''session_id''),
                        (''answer'', payload_get data ''answer''), (''from'', JStr c)]])
               else Inr (st, [error_event c ''Unauthorized: not compute for this session'']))) \<and>
         (truthy (payload_get data ''candidate'') \<longrightarrow>
            handle_ice_candidate c data st =
              (if client_connection st k = Some c \<or> compute_connection st k = Some c
               then Inr (st, [Broadcast k ''ice_candidate''
                       [(''session_id'', payload_get data ''session_id''),
                        (''candidate'', payload_get data ''candidate''), (''from'', JStr c)]])
               else Inr (st, [error_event c ''Unauthorized: not in this session''])))"
  using assms handle_offer_checked handle_answer_checked handle_ice_candidate_checked
  by blast

theorem relay_authorization_exact_match_witness:
  "handle_offer ''A'' relay_payload paired =
     Inr (paired, [Broadcast (KStr ''s1'') ''offer''
            [(''session_id'', JStr ''s1''), (''offer'', JStr ''SDP-OFFER''),
             (''from'', JStr ''A'')]]) \<and>
   handle_offer ''B'' relay_payload paired =
     Inr (paired, [error_event ''B'' ''Unauthorized: not client for this session'']) \<and>
   handle_answer ''B'' relay_payload paired =
     Inr (paired, [Broadcast (KStr ''s1'') ''answer''
            [(''session_id'', JStr ''s1''), (''answer'', JStr ''SDP-ANSWER''),
             (''from'', JStr ''B'')]]) \<and>
   handle_answer ''A'' relay_payload paired =
     Inr (paired, [error_event ''A'' ''Unauthorized: not compute for this session'']) \<and>
   handle_ice_candidate ''B'' relay_payload paired =
     Inr (paired, [Broadcast (KStr ''s1'') ''ice_candidate''
            [(''session_id'', JStr ''s1''), (''candidate'', JDict [(''sdpMid'', JStr ''0'')]),
             (''from'', JStr ''B'')]]) \<and>
   handle_ice_candidate ''C'' relay_payload paired =
     Inr (paired, [error_event ''C'' ''Unauthorized: not in this session''])"
  using relay_authorization_exact_match [of relay_payload "KStr ''s1''" "''A''" paired]
        relay_authorization_exact_match [of relay_payload "KStr ''s1''" "''B''" paired]
        relay_authorization_exact_match [of relay_payload "KStr ''s1''" "''C''" paired]
  by (simp add: relay_payload_def payload_get_def paired_def client_connection_def
        compute_connection_def)

lemma handle_offer_invalid:
  "\<not> truthy (payload_get data ''session_id'') \<or> \<not> truthy (payload_get data ''offer'') \<Longrightarrow>
     handle_offer c data st = Inr (st, [error_event c ''session_id and offer required''])"
  by (auto simp add: handle_offer_def)

lemma handle_answer_invalid:
  "\<not> truthy (payload_get data ''session_id'') \<or> \<not> truthy (payload_get data ''answer'') \<Longrightarrow>
     handle_answer c data st = Inr (st, [error_event c ''session_id and answer required''])"
  by (auto simp add: handle_answer_def)

lemma handle_ice_candidate_invalid:
  "\<not> truthy (payload_get data ''session_id'') \<or> \<not> truthy (payload_get data ''candidate'') \<Longrightarrow>
     handle_ice_candidate c data st =
       Inr (st, [error_event c ''session_id and candidate required''])"
  by (auto simp add: handle_ice_candidate_def)

text \<open>
  Claim C2. A relay event (offer, answer, ICE candidate) that fails validation (a
  required field is missing or empty) or authorization (the sender is not in the role
  the event needs) makes the handler return with exactly one event sent, an
  \<^verbatim>\<open>error\<close> event whose only recipient is the sender; nothing is broadcast and the
  state of the server, the session store included, is the one before the call.
\<close>

theorem relay_failure_one_error_to_sender:
  "((\<not> truthy (payload_get data ''session_id'') \<or> \<not> truthy (payload_get data ''offer'') \<or>
     (\<exists>k. hash_key (payload_get data ''session_id'') = Some k \<and>
          client_connection st k \<noteq> Some c)) \<longrightarrow>
    (\<exists>msg. handle_offer c data st = Inr (st, [error_event c msg]))) \<and>
   ((\<not> truthy (payload_get data ''session_id'') \<or> \<not> truthy (payload_get data ''answer'') \<or>
     (\<exists>k. hash_key (payload_get data ''session_id'') = Some k \<and>
          compute_connection st k \<noteq> Some c)) \<longrightarrow>
    (\<exists>msg. handle_answer c data st = Inr (st, [error_event c msg]))) \<and>
   ((\<not> truthy (payload_get data ''session_id'') \<or> \<not> truthy (payload_get data ''candidate'') \<or>
     (\<exists>k. hash_key (payload_get data ''session_id'') = Some k \<and>
          client_connection st k \<noteq> Some c \<and> compute_connection st k \<noteq> Some c)) \<longrightarrow>
    (\<exists>msg. handle_ice_candidate c data st = Inr (st, [error_event c msg]))) \<and>
   (\<forall>msg. recipients st (error_event c msg) = {c})"
proof (intro conjI impI allI)
  assume a: "\<not> truthy (payload_get data ''session_id'') \<or> \<not> truthy (payload_get data ''offer'') \<or>
     (\<exists>k. hash_key (payload_get data ''session_id'') = Some k \<and>
          client_connection st k \<noteq> Some c)"
  show "\<exists>msg. handle_offer c data st = Inr (st, [error_event c msg])"
  proof (cases "truthy (payload_get data ''session_id'') \<and> truthy (payload_get data ''offer'')")
    case True
    with a obtain k where "hash_key (payload_get data ''session_id'') = Some k"
      and "client_connection st k \<noteq> Some c" by blast
    with True show ?thesis by (auto simp add: handle_offer_checked)
  next
    case False
    then show ?thesis using handle_offer_invalid by blast
  qed
next
  assume a: "\<not> truthy (payload_get data ''session_id'') \<or> \<not> truthy (payload_get data ''answer'') \<or>
     (\<exists>k. hash_key (payload_get data ''session_id'') = Some k \<and>
          compute_connection st k \<noteq> Some c)"
  show "\<exists>msg. handle_answer c data st = Inr (st, [error_event c msg])"
  proof (cases "truthy (payload_get data ''session_id'') \<and> truthy (payload_get data ''answer'')")
    case True
    with a obtain k where "hash_key (payload_get data ''session_id'') = Some k"
      and "compute_connection st k \<noteq> Some c" by blast
    with True show ?thesis by (auto simp add: handle_answer_checked)
  next
    case False
    then show ?thesis using handle_answer_invalid by blast
  qed
next
  assume a: "\<not> truthy (payload_get data ''session_id'') \<or> \<not> truthy (payload_get data ''candidate'') \<or>
     (\<exists>k. hash_key (payload_get data ''session_id'') = Some k \<and>
          client_connection st k \<noteq> Some c \<and> compute_connection st k \<noteq> Some c)"
  show "\<exists>msg. handle_ice_candidate c data st = Inr (st, [error_event c msg])"
  proof (cases "truthy (payload_get data ''session_id'') \<and> truthy (payload_get data ''candidate'')")
    case True
    with a obtain k where "hash_key (payload_get data ''session_id'') = Some k"
      and "client_connection st k \<noteq> Some c" "compute_connection st k \<noteq> Some c" by blast
    with True show ?thesis by (auto simp add: handle_ice_candidate_checked)
  next
    case False
    then show ?thesis using handle_ice_candidate_invalid by blast
  qed
next
  fix msg show "recipients st (error_event c msg) = {c}" by (simp add: error_event_def)
qed

theorem relay_failure_one_error_to_sender_witness:
  "handle_offer ''A'' s1_payload paired =
     Inr (paired, [error_event ''A'' ''session_id and offer required'']) \<and>
   handle_offer ''C'' relay_payload paired =
     Inr (paired, [error_event ''C'' ''Unauthorized: not client for this session'']) \<and>
   handle_answer ''C'' relay_payload paired =
     Inr (paired, [error_event ''C'' ''Unauthorized: not compute for this session'']) \<and>
   handle_ice_candidate ''C'' relay_payload paired =
     Inr (paired, [error_event ''C'' ''Unauthorized: not in this session'']) \<and>
   recipients paired (error_event ''C'' ''Unauthorized: not in this session'') = {''C''}"
  using relay_failure_one_error_to_sender [of s1_payload paired "''A''"]
        relay_failure_one_error_to_sender [of relay_payload paired "''C''"]
  by (simp add: relay_payload_def s1_payload_def payload_get_def paired_def
        handle_offer_def handle_answer_def handle_ice_candidate_def session_of_def
        error_event_def)

text \<open>
  Claim C3. A relay event with its required fields present whose session identifier
  names no session of the store is answered by the \<^verbatim>\<open>Unauthorized\<close> error event, the
  very event a sender outside the role gets in a state \<open>st'\<close> where the roles do not
  match, and never by \<^verbatim>\<open>Session not found\<close>; nothing is broadcast.
\<close>

theorem relay_unknown_session_unauthorized:
  assumes "truthy (payload_get data ''session_id'')"
      and "hash_key (payload_get data ''session_id'') = Some k"
      and "map_of (active_sessions st) k = None"
      and "client_connection st' k \<noteq> Some c" and "compute_connection st' k \<noteq> Some c"
  shows "(truthy (payload_get data ''offer'') \<longrightarrow>
            handle_offer c data st =
              Inr (st, [error_event c ''Unauthorized: not client for this session'']) \<and>
            handle_offer c data st' =
              Inr (st', [error_event c ''Unauthorized: not client for this session''])) \<and>
         (truthy (payload_get data ''answer'') \<longrightarrow>
            handle_answer c data st =
              Inr (st, [error_event c ''Unauthorized: not compute for this session'']) \<and>
            handle_answer c data st' =
              Inr (st', [error_event c ''Unauthorized: not compute for this session''])) \<and>
         (truthy (payload_get data ''candidate'') \<longrightarrow>
            handle_ice_candidate c data st =
              Inr (st, [error_event c ''Unauthorized: not in this session'']) \<and>
            handle_ice_candidate c data st' =
              Inr (st', [error_event c ''Unauthorized: not in this session'']))"
proof -
  from assms(3) have "client_connection st k = None" "compute_connection st k = None"
    by (simp_all add: client_connection_def compute_connection_def)
  with assms show ?thesis
    by (simp add: handle_offer_checked handle_answer_checked handle_ice_candidate_checked)
qed

theorem relay_unknown_session_unauthorized_witness:
  "handle_offer ''C'' relay_payload init =
     Inr (init, [error_event ''C'' ''Unauthorized: not client for this session'']) \<and>
   handle_offer ''C'' relay_payload paired =
     Inr (paired, [error_event ''C'' ''Unauthorized: not client for this session'']) \<and>
   handle_answer ''C'' relay_payload init =
     Inr (init, [error_event ''C'' ''Unauthorized: not compute for this session'']) \<and>
   handle_ice_candidate ''C'' relay_payload init =
     Inr (init, [error_event ''C'' ''Unauthorized: not in this session''])"
  using relay_unknown_session_unauthorized [of relay_payload "KStr ''s1''" init paired "''C''"]
  by (simp add: relay_payload_def payload_get_def paired_def init_def client_connection_def
        compute_connection_def)

subsection \<open>Payload transparency\<close>

lemma handle_offer_broadcast:
  assumes "handle_offer c data st = Inr (st', outs)" and "Broadcast room ev p \<in> set outs"
  shows "st' = st \<and> outs = [Broadcast room ev p] \<and> ev = ''offer'' \<and>
      hash_key (payload_get data ''session_id'') = Some room \<and>
      p = [(''session_id'', payload_get data ''session_id''),
           (''offer'', payload_get data ''offer''), (''from'', JStr c)]"
  using assms
  by (auto simp add: handle_offer_def error_event_def Let_def split: if_splits option.splits)

lemma handle_answer_broadcast:
  assumes "handle_answer c data st = Inr (st', outs)" and "Broadcast room ev p \<in> set outs"
  shows "st' = st \<and> outs = [Broadcast room ev p] \<and> ev = ''answer'' \<and>
      hash_key (payload_get data ''session_id'') = Some room \<and>
      p = [(''session_id'', payload_get data ''session_id''),
           (''answer'', payload_get data ''answer''), (''from'', JStr c)]"
  using assms
  by (auto simp add: handle_answer_def error_event_def Let_def split: if_splits option.splits)

lemma handle_ice_candidate_broadcast:
  assumes "handle_ice_candidate c data st = Inr (st', outs)"
      and "Broadcast room ev p \<in> set outs"
  shows "st' = st \<and> outs = [Broadcast room ev p] \<and> ev = ''ice_candidate'' \<and>
      hash_key (payload_get data ''session_id'') = Some room \<and>
      p = [(''session_id'', payload_get data ''session_id''),
           (''candidate'', payload_get data ''candidate''), (''from'', JStr c)]"
  using assms
  by (auto simp add: handle_ice_candidate_def error_event_def Let_def
        split: if_splits option.splits)

text \<open>
  Claim C8. Every successfully authorized relay event is broadcast, and the broadcast is
  the handler's only output: an offer from the stored client, an answer from the stored
  compute node and a candidate from either of them go to the room of the submitted
  session identifier with the payload that is exactly the session identifier, the
  offer, answer or candidate as the sender submitted it, and the sender's connection
  identifier under \<^verbatim>\<open>from\<close>. The value the room reads under \<^verbatim>\<open>offer\<close>, \<^verbatim>\<open>answer\<close> or
  \<^verbatim>\<open>candidate\<close> is the value the sender's payload holds there. No relay handler
  broadcasts anything else.
\<close>

theorem relay_payload_transparent:
  assumes "truthy (payload_get data ''session_id'')"
      and "hash_key (payload_get data ''session_id'') = Some k"
  shows "(truthy (payload_get data ''offer'') \<and> client_connection st k = Some c \<longrightarrow>
            handle_offer c data st =
              Inr (st, [Broadcast k ''offer''
                     [(''session_id'', payload_get data ''session_id''),
                      (''offer'', payload_get data ''offer''), (''from'', JStr c)]]) \<and>
            payload_get [(''session_id'', payload_get data ''session_id''),
                         (''offer'', payload_get data ''offer''), (''from'', JStr c)] ''offer'' =
              payload_get data ''offer'') \<and>
         (truthy (payload_get data ''answer'') \<and> compute_connection st k = Some c \<longrightarrow>
            handle_answer c data st =
              Inr (st, [Broadcast k ''answer''
                     [(''session_id'', payload_get data ''session_id''),
                      (''answer'', payload_get data ''answer''), (''from'', JStr c)]]) \<and>
            payload_get [(''session_id'', payload_get data ''session_id''),
                         (''answer'', payload_get data ''answer''), (''from'', JStr c)] ''answer'' =
              payload_get data ''answer'') \<and>
         (truthy (payload_get data ''candidate'') \<and>
          (client_connection st k = Some c \<or> compute_connection st k = Some c) \<longrightarrow>
            handle_ice_candidate c data st =
              Inr (st, [Broadcast k ''ice_candidate''
                     [(''session_id'', payload_get data ''session_id''),
                      (''candidate'', payload_get data ''candidate''), (''from'', JStr c)]]) \<and>
            payload_get [(''session_id'', payload_get data ''session_id''),
                         (''candidate'', payload_get data ''candidate''), (''from'', JStr c)]
                ''candidate'' =
              payload_get data ''candidate'') \<and>
         (\<forall>st' outs room ev p.
            (handle_offer c data st = Inr (st', outs) \<or>
             handle_answer c data st = Inr (st', outs) \<or>
             handle_ice_candidate c data st = Inr (st', outs)) \<and>
            Broadcast room ev p \<in> set outs \<longrightarrow>
              outs = [Broadcast room ev p] \<and> room = k \<and>
              (\<exists>field. field \<in> {''offer'', ''answer'', ''candidate''} \<and>
                 p = [(''session_id'', payload_get data ''session_id''),
                      (field, payload_get data field), (''from'', JStr c)]))"
proof (intro conjI impI allI)
  assume "truthy (payload_get data ''offer'') \<and> client_connection st k = Some c"
  with assms show "handle_offer c data st =
      Inr (st, [Broadcast k ''offer''
             [(''session_id'', payload_get data ''session_id''),
              (''offer'', payload_get data ''offer''), (''from'', JStr c)]])"
    by (simp add: handle_offer_checked)
next
  show "payload_get [(''session_id'', payload_get data ''session_id''),
                     (''offer'', payload_get data ''offer''), (''from'', JStr c)] ''offer'' =
          payload_get data ''offer''"
    by (simp add: payload_get_def)
next
  assume "truthy (payload_get data ''answer'') \<and> compute_connection st k = Some c"
  with assms show "handle_answer c data st =
      Inr (st, [Broadcast k ''answer''
             [(''session_id'', payload_get data ''session_id''),
              (''answer'', payload_get data ''answer''), (''from'', JStr c)]])"
    by (simp add: handle_answer_checked)
next
  show "payload_get [(''session_id'', payload_get data ''session_id''),
                     (''answer'', payload_get data ''answer''), (''from'', JStr c)] ''answer'' =
          payload_get data ''answer''"
    by (simp add: payload_get_def)
next
  assume "truthy (payload_get data ''candidate'') \<and>
          (client_connection st k = Some c \<or> compute_connection st k = Some c)"
  with assms show "handle_ice_candidate c data st =
      Inr (st, [Broadcast k ''ice_candidate''
             [(''session_id'', payload_get data ''session_id''),
              (''candidate'', payload_get data ''candidate''), (''from'', JStr c)]])"
    by (simp add: handle_ice_candidate_checked)
next
  show "payload_get [(''session_id'', payload_get data ''session_id''),
                     (''candidate'', payload_get data ''candidate''), (''from'', JStr c)]
            ''candidate'' =
          payload_get data ''candidate''"
    by (simp add: payload_get_def)
next
  fix st' outs room ev p
  assume a: "(handle_offer c data st = Inr (st', outs) \<or>
             handle_answer c data st = Inr (st', outs) \<or>
             handle_ice_candidate c data st = Inr (st', outs)) \<and>
            Broadcast room ev p \<in> set outs"
  then have b: "Broadcast room ev p \<in> set outs" by simp
  from a consider
      (offer) "handle_offer c data st = Inr (st', outs)"
    | (answer) "handle_answer c data st = Inr (st', outs)"
    | (candidate) "handle_ice_candidate c data st = Inr (st', outs)"
    by blast
  then have "outs = [Broadcast room ev p] \<and> room = k \<and>
              (\<exists>field. field \<in> {''offer'', ''answer'', ''candidate''} \<and>
                 p = [(''session_id'', payload_get data ''session_id''),
                      (field, payload_get data field), (''from'', JStr c)])"
  proof cases
    case offer
    from handle_offer_broadcast [OF offer b] assms(2)
    have "outs = [Broadcast room ev p]" "room = k"
      "p = [(''session_id'', payload_get data ''session_id''),
            (''offer'', payload_get data ''offer''), (''from'', JStr c)]"
      by simp_all
    then show ?thesis by blast
  next
    case answer
    from handle_answer_broadcast [OF answer b] assms(2)
    have "outs = [Broadcast room ev p]" "room = k"
      "p = [(''session_id'', payload_get data ''session_id''),
            (''answer'', payload_get data ''answer''), (''from'', JStr c)]"
      by simp_all
    then show ?thesis by blast
  next
    case candidate
    from handle_ice_candidate_broadcast [OF candidate b] assms(2)
    have "outs = [Broadcast room ev p]" "room = k"
      "p = [(''session_id'', payload_get data ''session_id''),
            (''candidate'', payload_get data ''candidate''), (''from'', JStr c)]"
      by simp_all
    then show ?thesis by blast
  qed
  then show "outs = [Broadcast room ev p]" and "room = k"
    and "\<exists>field. field \<in> {''offer'', ''answer'', ''candidate''} \<and>
                 p = [(''session_id'', payload_get data ''session_id''),
                      (field, payload_get data field), (''from'', JStr c)]"
    by simp_all
qed

theorem relay_payload_transparent_witness:
  "handle_offer ''A'' relay_payload paired =
     Inr (paired, [Broadcast (KStr ''s1'') ''offer''
            [(''session_id'', JStr ''s1''), (''offer'', JStr ''SDP-OFFER''),
             (''from'', JStr ''A'')]]) \<and>
   handle_answer ''B'' relay_payload paired =
     Inr (paired, [Broadcast (KStr ''s1'') ''answer''
            [(''session_id'', JStr ''s1''), (''answer'', JStr ''SDP-ANSWER''),
             (''from'', JStr ''B'')]]) \<and>
   handle_ice_candidate ''A'' relay_payload paired =
     Inr (paired, [Broadcast (KStr ''s1'') ''ice_candidate''
            [(''session_id'', JStr ''s1''), (''candidate'', JDict [(''sdpMid'', JStr ''0'')]),
             (''from'', JStr ''A'')]]) \<and>
   handle_ice_candidate ''B'' relay_payload paired =
     Inr (paired, [Broadcast (KStr ''s1'') ''ice_candidate''
            [(''session_id'', JStr ''s1''), (''candidate'', JDict [(''sdpMid'', JStr ''0'')]),
             (''from'', JStr ''B'')]]) \<and>
   recipients paired (Broadcast (KStr ''s1'') ''offer''
            [(''session_id'', JStr ''s1''), (''offer'', JStr ''SDP-OFFER''),
             (''from'', JStr ''A'')]) = {''A'', ''B''}"
proof -
  have p: "truthy (payload_get relay_payload ''session_id'')"
    "hash_key (payload_get relay_payload ''session_id'') = Some (KStr ''s1'')"
    "truthy (payload_get relay_payload ''offer'')"
    "truthy (payload_get relay_payload ''answer'')"
    "truthy (payload_get relay_payload ''candidate'')"
    "payload_get relay_payload ''session_id'' = JStr ''s1''"
    "payload_get relay_payload ''offer'' = JStr ''SDP-OFFER''"
    "payload_get relay_payload ''answer'' = JStr ''SDP-ANSWER''"
    "payload_get relay_payload ''candidate'' = JDict [(''sdpMid'', JStr ''0'')]"
    by (simp_all add: relay_payload_def payload_get_def)
  have r: "client_connection paired (KStr ''s1'') = Some ''A''"
    "compute_connection paired (KStr ''s1'') = Some ''B''"
    by (simp_all add: client_connection_def compute_connection_def paired_def)
  have m: "recipients paired (Broadcast (KStr ''s1'') ''offer''
            [(''session_id'', JStr ''s1''), (''offer'', JStr ''SDP-OFFER''),
             (''from'', JStr ''A'')]) = {''A'', ''B''}"
    by (auto simp add: paired_def sid_rooms_def members_def)
  note a = relay_payload_transparent [OF p(1,2), of paired "''A''"]
  note b = relay_payload_transparent [OF p(1,2), of paired "''B''"]
  from a p(3) r(1) have "handle_offer ''A'' relay_payload paired =
     Inr (paired, [Broadcast (KStr ''s1'') ''offer''
            [(''session_id'', payload_get relay_payload ''session_id''),
             (''offer'', payload_get relay_payload ''offer''), (''from'', JStr ''A'')]])"
    by blast
  moreover from b p(4) r(2) have "handle_answer ''B'' relay_payload paired =
     Inr (paired, [Broadcast (KStr ''s1'') ''answer''
            [(''session_id'', payload_get relay_payload ''session_id''),
             (''answer'', payload_get relay_payload ''answer''), (''from'', JStr ''B'')]])"
    by blast
  moreover from a p(5) r(1) have "handle_ice_candidate ''A'' relay_payload paired =
     Inr (paired, [Broadcast (KStr ''s1'') ''ice_candidate''
            [(''session_id'', payload_get relay_payload ''session_id''),
             (''candidate'', payload_get relay_payload ''candidate''), (''from'', JStr ''A'')]])"
    by blast
  moreover from b p(5) r(2) have "handle_ice_candidate ''B'' relay_payload paired =
     Inr (paired, [Broadcast (KStr ''s1'') ''ice_candidate''
            [(''session_id'', payload_get relay_payload ''session_id''),
             (''candidate'', payload_get relay_payload ''candidate''), (''from'', JStr ''B'')]])"
    by blast
  ultimately show ?thesis using m by (simp only: p(6-9))
qed

subsection \<open>Registration: creating and joining a session\<close>

lemma members_enter_room:
  "members (enter_room c k rs) k' = (if k' = k then List.insert c (members rs k) else members rs k')"
  by (simp add: enter_room_def members_def update_conv')

lemma sid_room_of_other_sessions [simp]:
  "sid_room_of_other c k (st\<lparr>active_sessions := xs\<rparr>) = sid_room_of_other c k st"
  by (simp add: sid_room_of_other_def split: key.split)

lemma map_of_registered_client:
  "map_of (AList.map_entry k (\<lambda>s. s\<lparr>client_id := Some c\<rparr>)
             (if map_of xs k = None then AList.update k empty_session xs else xs)) =
   (map_of xs)(k \<mapsto> (case map_of xs k of None \<Rightarrow> empty_session | Some s \<Rightarrow> s)
                        \<lparr>client_id := Some c\<rparr>)"
  by (auto simp add: map_of_map_entry update_conv' fun_eq_iff)

lemma handle_create_session_invalid:
  "\<not> truthy (payload_get data ''session_id'') \<Longrightarrow>
     handle_create_session c data st = Inr (st, [error_event c ''session_id required''])"
  by (simp add: handle_create_session_def)

lemma handle_create_session_valid:
  assumes "truthy (payload_get data ''session_id'')"
      and "hash_key (payload_get data ''session_id'') = Some k"
      and "\<not> sid_room_of_other c k st"
  shows "handle_create_session c data st =
           Inr (st\<lparr>active_sessions :=
                     AList.map_entry k (\<lambda>s. s\<lparr>client_id := Some c\<rparr>)
                       (if map_of (active_sessions st) k = None
                        then AList.update k empty_session (active_sessions st)
                        else active_sessions st),
                   rooms := enter_room c k (rooms st)\<rparr>,
                [Emit c ''session_created'' [(''session_id'', payload_get data ''session_id'')]])"
  using assms by (simp add: handle_create_session_def join_room_def Let_def)

lemma handle_create_session_refused:
  assumes "truthy (payload_get data ''session_id'')"
      and "hash_key (payload_get data ''session_id'') = Some k"
      and "sid_room_of_other c k st"
  shows "handle_create_session c data st =
           Inl (ValueError,
                st\<lparr>active_sessions :=
                     AList.map_entry k (\<lambda>s. s\<lparr>client_id := Some c\<rparr>)
                       (if map_of (active_sessions st) k = None
                        then AList.update k empty_session (active_sessions st)
                        else active_sessions st)\<rparr>)"
  using assms by (simp add: handle_create_session_def join_room_def Let_def)




lemma handle_join_as_compute_invalid:
  "\<not> truthy (payload_get data ''session_id'') \<Longrightarrow>
     handle_join_as_compute c data st = Inr (st, [error_event c ''session_id required''])"
  by (simp add: handle_join_as_compute_def)

lemma handle_join_as_compute_missing:
  assumes "truthy (payload_get data ''session_id'')"
      and "hash_key (payload_get data ''session_id'') = Some k"
      and "map_of (active_sessions st) k = None"
  shows "handle_join_as_compute c data st = Inr (st, [error_event c ''Session not found''])"
  using assms by (simp add: handle_join_as_compute_def)

lemma handle_join_as_compute_found:
  assumes "truthy (payload_get data ''session_id'')"
      and "hash_key (payload_get data ''session_id'') = Some k"
      and "map_of (active_sessions st) k = Some s"
      and "\<not> sid_room_of_other c k st"
  shows "handle_join_as_compute c data st =
           Inr (st\<lparr>active_sessions :=
                     AList.map_entry k (\<lambda>s. s\<lparr>compute_id := Some c\<rparr>) (active_sessions st),
                   rooms := enter_room c k (rooms st)\<rparr>,
                [Emit c ''joined''
                   [(''role'', JStr ''compute''),
                    (''session_id'', payload_get data ''session_id'')]])"
  using assms by (simp add: handle_join_as_compute_def join_room_def Let_def)

lemma handle_join_as_compute_refused:
  assumes "truthy (payload_get data ''session_id'')"
      and "hash_key (payload_get data ''session_id'') = Some k"
      and "map_of (active_sessions st) k = Some s"
      and "sid_room_of_other c k st"
  shows "handle_join_as_compute c data st =
           Inl (ValueError,
                st\<lparr>active_sessions :=
                     AList.map_entry k (\<lambda>s. s\<lparr>compute_id := Some c\<rparr>) (active_sessions st)\<rparr>)"
  using assms by (simp add: handle_join_as_compute_def join_room_def Let_def)




subsection \<open>Disconnect: the two loops\<close>

lemma collect_sessions_filter:
  "collect_sessions c items acc = acc @ map fst (filter (\<lambda>e. occupies c (snd e)) items)"
  by (induction c items acc rule: collect_sessions.induct) (simp_all add: occupies_def)

lemma remove_sessions_filter:
  "remove_sessions ks d = Inr d' \<Longrightarrow> d' = filter (\<lambda>e. fst e \<notin> set ks) d"
proof (induction ks arbitrary: d)
  case Nil
  then show ?case by simp
next
  case (Cons k ks)
  from Cons.prems have "remove_sessions ks (AList.delete k d) = Inr d'"
    by (simp split: option.splits)
  then have "d' = filter (\<lambda>e. fst e \<notin> set ks) (AList.delete k d)"
    by (rule Cons.IH)
  then show ?case
    by (auto simp add: AList.delete_eq intro: filter_cong)
qed

lemma remove_sessions_raised:
  "remove_sessions ks d = Inl (e, d') \<Longrightarrow> \<exists>ks'. d' = filter (\<lambda>x. fst x \<notin> set ks') d"
proof (induction ks arbitrary: d)
  case Nil
  then show ?case by simp
next
  case (Cons k ks)
  show ?case
  proof (cases "map_of d k")
    case None
    with Cons.prems have "d' = filter (\<lambda>x. fst x \<notin> set []) d" by simp
    then show ?thesis by blast
  next
    case (Some s)
    with Cons.prems have "remove_sessions ks (AList.delete k d) = Inl (e, d')" by simp
    then obtain ks' where "d' = filter (\<lambda>x. fst x \<notin> set ks') (AList.delete k d)"
      using Cons.IH by blast
    then have "d' = filter (\<lambda>x. fst x \<notin> set (k # ks')) d"
      by (auto simp add: AList.delete_eq intro: filter_cong)
    then show ?thesis by blast
  qed
qed

lemma remove_sessions_returns:
  "distinct ks \<Longrightarrow> set ks \<subseteq> fst ` set d \<Longrightarrow> \<exists>d'. remove_sessions ks d = Inr d'"
proof (induction ks arbitrary: d)
  case Nil
  then show ?case by simp
next
  case (Cons k ks)
  from Cons.prems obtain s where s: "map_of d k = Some s"
    by (cases "map_of d k") (auto simp add: map_of_eq_None_iff)
  have "set ks \<subseteq> fst ` set (AList.delete k d)"
  proof
    fix x assume x: "x \<in> set ks"
    with Cons.prems have "x \<noteq> k" by auto
    moreover from x Cons.prems obtain e where "e \<in> set d" "fst e = x" by auto
    ultimately show "x \<in> fst ` set (AList.delete k d)"
      by (force simp add: AList.delete_eq)
  qed
  with Cons.prems have "\<exists>d'. remove_sessions ks (AList.delete k d) = Inr d'"
    by (intro Cons.IH) simp_all
  with s show ?case by simp
qed

lemma filter_collected_keys:
  assumes "distinct (map fst d)"
  shows "filter (\<lambda>e. fst e \<notin> fst ` {e' \<in> set d. P e'}) d = filter (\<lambda>e. \<not> P e) d"
proof (rule filter_cong [OF refl])
  fix e assume e: "e \<in> set d"
  have "P e" if "e' \<in> set d" "P e'" "fst e' = fst e" for e'
  proof -
    from that(1) have "(fst e, snd e') \<in> set d" using that(3) by (metis prod.collapse)
    moreover from e have "(fst e, snd e) \<in> set d" by simp
    ultimately have "snd e' = snd e" using assms by (rule_tac eq_key_imp_eq_value)
    with that(3) have "e' = e" by (simp add: prod_eq_iff)
    with that(2) show ?thesis by simp
  qed
  then have same: "\<And>e'. e' \<in> set d \<Longrightarrow> P e' \<Longrightarrow> fst e' = fst e \<Longrightarrow> P e" .
  show "(fst e \<notin> fst ` {e' \<in> set d. P e'}) = (\<not> P e)"
  proof
    assume "fst e \<notin> fst ` {e' \<in> set d. P e'}"
    with e show "\<not> P e" by blast
  next
    assume n: "\<not> P e"
    show "fst e \<notin> fst ` {e' \<in> set d. P e'}"
    proof
      assume "fst e \<in> fst ` {e' \<in> set d. P e'}"
      then obtain e' where "e' \<in> set d" "P e'" "fst e' = fst e" by auto
      then have "P e" by (rule same)
      with n show False by simp
    qed
  qed
qed

lemma collected_keys:
  "set (collect_sessions c d []) = fst ` {e' \<in> set d. occupies c (snd e')}"
  by (simp add: collect_sessions_filter)

lemma handle_disconnect_filter:
  assumes "handle_disconnect c st = Inr (st', outs)"
  shows "st' = st\<lparr>active_sessions :=
                    filter (\<lambda>e. fst e \<notin> fst ` {e' \<in> set (active_sessions st). occupies c (snd e')})
                      (active_sessions st)\<rparr> \<and> outs = []"
proof -
  from assms obtain d' where
    d': "remove_sessions (collect_sessions c (active_sessions st) []) (active_sessions st) = Inr d'"
    and st': "st' = st\<lparr>active_sessions := d'\<rparr>" "outs = []"
    by (auto simp add: handle_disconnect_def split: sum.splits prod.splits)
  from remove_sessions_filter [OF d'] st' show ?thesis
    by (simp only: collected_keys)
qed

lemma handle_disconnect_sessions:
  "\<exists>ks. state_after (handle_disconnect c st) =
          st\<lparr>active_sessions := filter (\<lambda>x. fst x \<notin> set ks) (active_sessions st)\<rparr>"
proof (cases "remove_sessions (collect_sessions c (active_sessions st) []) (active_sessions st)")
  case (Inl r)
  obtain e d' where r: "r = (e, d')" by (cases r)
  with Inl obtain ks where "d' = filter (\<lambda>x. fst x \<notin> set ks) (active_sessions st)"
    using remove_sessions_raised by blast
  with Inl r show ?thesis by (auto simp add: handle_disconnect_def)
next
  case (Inr d')
  then have "d' = filter (\<lambda>x. fst x \<notin> set (collect_sessions c (active_sessions st) []))
      (active_sessions st)"
    by (rule remove_sessions_filter)
  with Inr show ?thesis by (auto simp add: handle_disconnect_def)
qed

lemma handle_disconnect_unique:
  assumes "unique_keys st"
  shows "handle_disconnect c st =
           Inr (st\<lparr>active_sessions :=
                     filter (\<lambda>e. \<not> occupies c (snd e)) (active_sessions st)\<rparr>, [])"
proof -
  let ?d = "active_sessions st"
  let ?ks = "collect_sessions c ?d []"
  from assms have dist: "distinct (map fst ?d)" by (simp add: unique_keys_def)
  have ks: "?ks = map fst (filter (\<lambda>e. occupies c (snd e)) ?d)"
    by (simp add: collect_sessions_filter)
  have "distinct ?ks" unfolding ks using dist by (rule distinct_map_filter)
  moreover have "set ?ks \<subseteq> fst ` set ?d" unfolding ks by auto
  ultimately obtain d' where d': "remove_sessions ?ks ?d = Inr d'"
    using remove_sessions_returns by blast
  from remove_sessions_filter [OF d'] have
    "d' = filter (\<lambda>e. fst e \<notin> fst ` {e' \<in> set ?d. occupies c (snd e')}) ?d"
    by (simp only: collected_keys)
  also have "\<dots> = filter (\<lambda>e. \<not> occupies c (snd e)) ?d"
    using dist by (rule filter_collected_keys)
  finally have "d' = filter (\<lambda>e. \<not> occupies c (snd e)) ?d" .
  with d' show ?thesis by (simp add: handle_disconnect_def)
qed

lemma map_of_filter_values:
  "distinct (map fst d) \<Longrightarrow>
     map_of (filter (\<lambda>e. Q (snd e)) d) k =
       (case map_of d k of None \<Rightarrow> None | Some s \<Rightarrow> if Q s then Some s else None)"
proof (induction d)
  case Nil
  then show ?case by simp
next
  case (Cons e d)
  show ?case
  proof (cases "fst e = k")
    case True
    with Cons.prems have "k \<notin> fst ` set d" by auto
    then have "k \<notin> fst ` set (filter (\<lambda>e. Q (snd e)) d)" by auto
    then have "map_of (filter (\<lambda>e. Q (snd e)) d) k = None"
      by (simp add: map_of_eq_None_iff)
    with True show ?thesis by (cases e) simp
  next
    case False
    with Cons show ?thesis by (cases e) simp
  qed
qed

text \<open>
  Claim C4. In a store that holds every key once, as a dictionary does, the disconnect
  handler returns (no exception, nothing sent) and the store afterwards is the store
  before without the sessions in which the closed connection held the client or the
  compute role: these records are gone whole, whoever held the other role, and every
  other session is there as before. A \<^verbatim>\<open>join_as_compute\<close> for a session whose client
  has disconnected is then answered by \<^verbatim>\<open>Session not found\<close>.
\<close>

theorem disconnect_deletes_occupied_sessions:
  assumes "unique_keys st"
  shows "\<exists>st'. handle_disconnect c st = Inr (st', []) \<and>
           active_sessions st' = filter (\<lambda>e. \<not> occupies c (snd e)) (active_sessions st) \<and>
           rooms st' = rooms st \<and>
           (\<forall>k. map_of (active_sessions st') k =
                  (case map_of (active_sessions st) k of
                     None \<Rightarrow> None
                   | Some s \<Rightarrow> if occupies c s then None else Some s)) \<and>
           (\<forall>k caller data.
              client_connection st k = Some c \<and> truthy (payload_get data ''session_id'') \<and>
              hash_key (payload_get data ''session_id'') = Some k \<longrightarrow>
                handle_join_as_compute caller data st' =
                  Inr (st', [error_event caller ''Session not found'']))"
proof -
  let ?st' = "st\<lparr>active_sessions := filter (\<lambda>e. \<not> occupies c (snd e)) (active_sessions st)\<rparr>"
  from assms have dist: "distinct (map fst (active_sessions st))" by (simp add: unique_keys_def)
  have run: "handle_disconnect c st = Inr (?st', [])"
    using assms by (rule handle_disconnect_unique)
  have look: "map_of (active_sessions ?st') k =
      (case map_of (active_sessions st) k of
         None \<Rightarrow> None
       | Some s \<Rightarrow> if occupies c s then None else Some s)" for k
    using map_of_filter_values [OF dist, of "\<lambda>s. \<not> occupies c s" k]
    by (simp split: option.splits)
  have join: "handle_join_as_compute caller data ?st' =
      Inr (?st', [error_event caller ''Session not found''])"
    if "client_connection st k = Some c" "truthy (payload_get data ''session_id'')"
      "hash_key (payload_get data ''session_id'') = Some k" for k caller data
  proof -
    from that(1) have "map_of (active_sessions ?st') k = None"
      unfolding look by (auto simp add: client_connection_def occupies_def split: option.splits)
    with that(2,3) show ?thesis by (rule handle_join_as_compute_missing)
  qed
  have "active_sessions ?st' = filter (\<lambda>e. \<not> occupies c (snd e)) (active_sessions st)"
    by simp
  moreover have "rooms ?st' = rooms st" by simp
  ultimately show ?thesis using run look join by blast
qed

theorem disconnect_deletes_occupied_sessions_witness:
  "unique_keys two_sessions \<and>
   handle_disconnect ''A'' two_sessions = Inr (after_disconnect, []) \<and>
   handle_join_as_compute ''B'' s1_payload after_disconnect =
     Inr (after_disconnect, [error_event ''B'' ''Session not found''])"
proof -
  have u: "unique_keys two_sessions"
    by (simp add: unique_keys_def two_sessions_def)
  have d: "handle_disconnect ''A'' two_sessions = Inr (after_disconnect, [])"
    by (simp add: two_sessions_def after_disconnect_def handle_disconnect_def sid_rooms_def)
  have c: "client_connection two_sessions (KStr ''s1'') = Some ''A''"
    by (simp add: client_connection_def two_sessions_def)
  have p: "truthy (payload_get s1_payload ''session_id'')"
    "hash_key (payload_get s1_payload ''session_id'') = Some (KStr ''s1'')"
    by (simp_all add: s1_payload_def payload_get_def)
  from disconnect_deletes_occupied_sessions [OF u, of "''A''"] obtain st' where
    a: "handle_disconnect ''A'' two_sessions = Inr (st', [])" and
    j: "\<forall>k caller data.
          client_connection two_sessions k = Some ''A'' \<and>
          truthy (payload_get data ''session_id'') \<and>
          hash_key (payload_get data ''session_id'') = Some k \<longrightarrow>
            handle_join_as_compute caller data st' =
              Inr (st', [error_event caller ''Session not found''])"
    by blast
  from a d have "st' = after_disconnect" by simp
  with j c p have "handle_join_as_compute ''B'' s1_payload after_disconnect =
     Inr (after_disconnect, [error_event ''B'' ''Session not found''])"
    by blast
  with u d show ?thesis by simp
qed

subsection \<open>What a handler leaves behind\<close>

lemma relay_state_unchanged:
  "handle_offer c data st = Inr (st', outs) \<Longrightarrow> st' = st"
  "handle_answer c data st = Inr (st', outs) \<Longrightarrow> st' = st"
  "handle_ice_candidate c data st = Inr (st', outs) \<Longrightarrow> st' = st"
  by (auto simp add: handle_offer_def handle_answer_def handle_ice_candidate_def Let_def
        split: if_splits option.splits)

lemma relay_state_after:
  "state_after (handle_offer c data st) = st"
  "state_after (handle_answer c data st) = st"
  "state_after (handle_ice_candidate c data st) = st"
  by (auto simp add: handle_offer_def handle_answer_def handle_ice_candidate_def Let_def
        split: if_splits option.splits)

lemma handle_create_session_cases:
  obtains
    (invalid) "\<not> truthy (payload_get data ''session_id'')"
      "handle_create_session c data st = Inr (st, [error_event c ''session_id required''])"
  | (unhashable) "handle_create_session c data st = Inl (TypeError, st)"
  | (refused) k where "truthy (payload_get data ''session_id'')"
      "hash_key (payload_get data ''session_id'') = Some k" "sid_room_of_other c k st"
      "handle_create_session c data st =
         Inl (ValueError,
              st\<lparr>active_sessions :=
                   AList.map_entry k (\<lambda>s. s\<lparr>client_id := Some c\<rparr>)
                     (if map_of (active_sessions st) k = None
                      then AList.update k empty_session (active_sessions st)
                      else active_sessions st)\<rparr>)"
  | (registered) k where "truthy (payload_get data ''session_id'')"
      "hash_key (payload_get data ''session_id'') = Some k" "\<not> sid_room_of_other c k st"
      "handle_create_session c data st =
         Inr (st\<lparr>active_sessions :=
                   AList.map_entry k (\<lambda>s. s\<lparr>client_id := Some c\<rparr>)
                     (if map_of (active_sessions st) k = None
                      then AList.update k empty_session (active_sessions st)
                      else active_sessions st),
                 rooms := enter_room c k (rooms st)\<rparr>,
              [Emit c ''session_created'' [(''session_id'', payload_get data ''session_id'')]])"
proof (cases "truthy (payload_get data ''session_id'')")
  case False
  then show ?thesis using invalid handle_create_session_invalid by blast
next
  case True
  show ?thesis
  proof (cases "hash_key (payload_get data ''session_id'')")
    case None
    with True show ?thesis using unhashable unhashable_session_id_raises(1) by blast
  next
    case (Some k)
    show ?thesis
    proof (cases "sid_room_of_other c k st")
      case True
      with \<open>truthy (payload_get data ''session_id'')\<close> Some show ?thesis
        using refused handle_create_session_refused by blast
    next
      case False
      with \<open>truthy (payload_get data ''session_id'')\<close> Some show ?thesis
        using registered handle_create_session_valid by blast
    qed
  qed
qed

lemma handle_join_as_compute_cases:
  obtains
    (invalid) "\<not> truthy (payload_get data ''session_id'')"
      "handle_join_as_compute c data st = Inr (st, [error_event c ''session_id required''])"
  | (unhashable) "handle_join_as_compute c data st = Inl (TypeError, st)"
  | (missing) "handle_join_as_compute c data st = Inr (st, [error_event c ''Session not found''])"
  | (refused) k where "truthy (payload_get data ''session_id'')"
      "hash_key (payload_get data ''session_id'') = Some k" "sid_room_of_other c k st"
      "handle_join_as_compute c data st =
         Inl (ValueError,
              st\<lparr>active_sessions :=
                   AList.map_entry k (\<lambda>s. s\<lparr>compute_id := Some c\<rparr>) (active_sessions st)\<rparr>)"
  | (registered) k where "truthy (payload_get data ''session_id'')"
      "hash_key (payload_get data ''session_id'') = Some k" "\<not> sid_room_of_other c k st"
      "handle_join_as_compute c data st =
         Inr (st\<lparr>active_sessions :=
                   AList.map_entry k (\<lambda>s. s\<lparr>compute_id := Some c\<rparr>) (active_sessions st),
                 rooms := enter_room c k (rooms st)\<rparr>,
              [Emit c ''joined''
                 [(''role'', JStr ''compute''),
                  (''session_id'', payload_get data ''session_id'')]])"
proof (cases "truthy (payload_get data ''session_id'')")
  case False
  then show ?thesis using invalid handle_join_as_compute_invalid by blast
next
  case True
  show ?thesis
  proof (cases "hash_key (payload_get data ''session_id'')")
    case None
    with True show ?thesis using unhashable unhashable_session_id_raises(2) by blast
  next
    case (Some k)
    show ?thesis
    proof (cases "map_of (active_sessions st) k")
      case None
      with True Some show ?thesis using missing handle_join_as_compute_missing by blast
    next
      case found: (Some s)
      show ?thesis
      proof (cases "sid_room_of_other c k st")
        case True
        with \<open>truthy (payload_get data ''session_id'')\<close> Some found show ?thesis
          using refused handle_join_as_compute_refused by blast
      next
        case False
        with \<open>truthy (payload_get data ''session_id'')\<close> Some found show ?thesis
          using registered handle_join_as_compute_found by blast
      qed
    qed
  qed
qed

lemma create_session_store:
  assumes "truthy (payload_get data ''session_id'')"
      and "hash_key (payload_get data ''session_id'') = Some k"
  shows "active_sessions (state_after (handle_create_session c data st)) =
           AList.map_entry k (\<lambda>s. s\<lparr>client_id := Some c\<rparr>)
             (if map_of (active_sessions st) k = None
              then AList.update k empty_session (active_sessions st)
              else active_sessions st)"
    and "sids (state_after (handle_create_session c data st)) = sids st"
  using assms
  by (cases "sid_room_of_other c k st";
      simp add: handle_create_session_refused handle_create_session_valid)+

lemma state_after_disconnect_step:
  "state_after (step st (Disconnect c)) = close_connection c (state_after (handle_disconnect c st))"
  by (cases "handle_disconnect c st") auto

subsection \<open>One record for every session identifier\<close>

lemma keys_map_entry: "map fst (AList.map_entry k f xs) = map fst xs"
  by (induction xs) auto

lemma unique_keys_create:
  assumes "unique_keys st"
  shows "unique_keys (state_after (handle_create_session c data st))"
  using assms
  by (cases rule: handle_create_session_cases [of data c st])
     (auto simp add: unique_keys_def keys_map_entry intro: distinct_update)

lemma unique_keys_join:
  assumes "unique_keys st"
  shows "unique_keys (state_after (handle_join_as_compute c data st))"
  using assms
  by (cases rule: handle_join_as_compute_cases [of data c st])
     (auto simp add: unique_keys_def keys_map_entry)

lemma unique_keys_disconnect:
  assumes "unique_keys st"
  shows "unique_keys (state_after (step st (Disconnect c)))"
proof -
  obtain ks where "state_after (handle_disconnect c st) =
      st\<lparr>active_sessions := filter (\<lambda>x. fst x \<notin> set ks) (active_sessions st)\<rparr>"
    using handle_disconnect_sessions by blast
  then have "state_after (step st (Disconnect c)) =
      close_connection c
        (st\<lparr>active_sessions := filter (\<lambda>x. fst x \<notin> set ks) (active_sessions st)\<rparr>)"
    by (simp only: state_after_disconnect_step)
  with assms show ?thesis
    by (simp add: close_connection_def unique_keys_def distinct_map_filter)
qed

lemma unique_keys_step:
  assumes "unique_keys st"
  shows "unique_keys (state_after (step st ev))"
proof (cases ev)
  case (Connect c)
  with assms show ?thesis
    by (simp add: handle_connect_def open_connection_def unique_keys_def)
next
  case (Disconnect c)
  with assms show ?thesis using unique_keys_disconnect by simp
next
  case (CreateSession c data)
  with assms show ?thesis using unique_keys_create by simp
next
  case (JoinAsCompute c data)
  with assms show ?thesis using unique_keys_join by simp
next
  case (Offer c data)
  with assms show ?thesis by (simp add: relay_state_after)
next
  case (Answer c data)
  with assms show ?thesis by (simp add: relay_state_after)
next
  case (IceCandidate c data)
  with assms show ?thesis by (simp add: relay_state_after)
qed

lemma unique_keys_run: "unique_keys st \<Longrightarrow> unique_keys (run st evs)"
  by (induction evs arbitrary: st) (simp_all add: unique_keys_step)

lemma unique_keys_init: "unique_keys init"
  by (simp add: unique_keys_def init_def)

text \<open>
  On a store with unique keys the disconnect handler does not raise, and every store of
  a run has unique keys.
\<close>

lemma handle_disconnect_returns:
  "unique_keys st \<Longrightarrow> \<exists>st'. handle_disconnect c st = Inr (st', [])"
  by (simp add: handle_disconnect_unique)

lemma one_record_per_key:
  "distinct (map fst xs) \<Longrightarrow> k \<in> fst ` set xs \<Longrightarrow> length (filter (\<lambda>e. fst e = k) xs) = 1"
proof (induction xs)
  case Nil
  then show ?case by simp
next
  case (Cons e xs)
  show ?case
  proof (cases "fst e = k")
    case True
    with Cons.prems have "k \<notin> fst ` set xs" by auto
    then have "filter (\<lambda>e. fst e = k) xs = []" by (auto simp add: filter_empty_conv)
    with True show ?thesis by simp
  next
    case False
    with Cons show ?thesis by auto
  qed
qed

lemma create_session_twice:
  assumes u: "unique_keys st"
      and d1: "truthy (payload_get data1 ''session_id'')"
              "hash_key (payload_get data1 ''session_id'') = Some k"
      and d2: "truthy (payload_get data2 ''session_id'')"
              "hash_key (payload_get data2 ''session_id'') = Some k"
      and st1: "st1 = state_after (handle_create_session c1 data1 st)"
      and st2: "st2 = state_after (handle_create_session c2 data2 st1)"
  shows "length (filter (\<lambda>e. fst e = k) (active_sessions st2)) = 1"
    and "map fst (active_sessions st2) = map fst (active_sessions st1)"
    and "client_connection st2 k = Some c2"
proof -
  define xs1 where "xs1 = AList.map_entry k (\<lambda>s. s\<lparr>client_id := Some c1\<rparr>)
                (if map_of (active_sessions st) k = None
                 then AList.update k empty_session (active_sessions st)
                 else active_sessions st)"
  have s1: "active_sessions st1 = xs1"
    unfolding st1 xs1_def using d1 by (rule create_session_store(1))
  have found: "map_of xs1 k \<noteq> None"
    unfolding xs1_def by (simp only: map_of_registered_client) simp
  then obtain s where s: "map_of xs1 k = Some s" by auto
  have "active_sessions st2 =
           AList.map_entry k (\<lambda>s. s\<lparr>client_id := Some c2\<rparr>)
             (if map_of (active_sessions st1) k = None
              then AList.update k empty_session (active_sessions st1)
              else active_sessions st1)"
    unfolding st2 using d2 by (rule create_session_store(1))
  with s have s2: "active_sessions st2 = AList.map_entry k (\<lambda>s. s\<lparr>client_id := Some c2\<rparr>) xs1"
    by (simp add: s1)
  show keys: "map fst (active_sessions st2) = map fst (active_sessions st1)"
    by (simp add: s1 s2 keys_map_entry)
  have "unique_keys st1" unfolding st1 using u by (rule unique_keys_create)
  then have "distinct (map fst (active_sessions st2))" by (simp add: unique_keys_def keys)
  moreover from found have "k \<in> fst ` set (active_sessions st2)"
    unfolding s2 by (simp only: dom_map_entry) (simp add: map_of_eq_None_iff)
  ultimately show "length (filter (\<lambda>e. fst e = k) (active_sessions st2)) = 1"
    by (rule one_record_per_key)
  from s show "client_connection st2 k = Some c2"
    by (simp add: client_connection_def s2 map_of_map_entry)
qed

text \<open>
  Claim C7. In every state the server reaches, the store holds one record for each
  session identifier, and a record has one slot for each role. Calling
  \<^verbatim>\<open>create_session\<close> twice with the same session identifier, by the same caller or by
  two, adds no second record: whether the calls return or are stopped by the transport
  after the store is written, the store after the second call has the keys it had
  after the first, the identifier among them exactly once, and the later caller is the
  client of the session. Both calls return with the \<^verbatim>\<open>session_created\<close> confirmation
  unless the identifier is the connection identifier of another live connection.
\<close>

theorem create_session_twice_last_writer_wins:
  "unique_keys (run init evs) \<and>
   (unique_keys st \<and>
    truthy (payload_get data1 ''session_id'') \<and>
    hash_key (payload_get data1 ''session_id'') = Some k \<and>
    truthy (payload_get data2 ''session_id'') \<and>
    hash_key (payload_get data2 ''session_id'') = Some k \<and>
    st1 = state_after (handle_create_session c1 data1 st) \<and>
    st2 = state_after (handle_create_session c2 data2 st1) \<longrightarrow>
      length (filter (\<lambda>e. fst e = k) (active_sessions st2)) = 1 \<and>
      map fst (active_sessions st2) = map fst (active_sessions st1) \<and>
      client_connection st2 k = Some c2 \<and>
      (\<not> sid_room_of_other c1 k st \<longrightarrow>
         handle_create_session c1 data1 st =
           Inr (st1, [Emit c1 ''session_created''
                        [(''session_id'', payload_get data1 ''session_id'')]])) \<and>
      (\<not> sid_room_of_other c2 k st \<longrightarrow>
         handle_create_session c2 data2 st1 =
           Inr (st2, [Emit c2 ''session_created''
                        [(''session_id'', payload_get data2 ''session_id'')]])))"
proof (intro conjI impI)
  show "unique_keys (run init evs)"
    using unique_keys_init by (rule unique_keys_run)
next
  assume a: "unique_keys st \<and>
    truthy (payload_get data1 ''session_id'') \<and>
    hash_key (payload_get data1 ''session_id'') = Some k \<and>
    truthy (payload_get data2 ''session_id'') \<and>
    hash_key (payload_get data2 ''session_id'') = Some k \<and>
    st1 = state_after (handle_create_session c1 data1 st) \<and>
    st2 = state_after (handle_create_session c2 data2 st1)"
  then show "length (filter (\<lambda>e. fst e = k) (active_sessions st2)) = 1"
    using create_session_twice(1) [of st data1 k data2 st1 c1 st2 c2] by blast
  from a show "map fst (active_sessions st2) = map fst (active_sessions st1)"
    using create_session_twice(2) [of st data1 k data2 st1 c1 st2 c2] by blast
  from a show "client_connection st2 k = Some c2"
    using create_session_twice(3) [of st data1 k data2 st1 c1 st2 c2] by blast
  {
    assume n: "\<not> sid_room_of_other c1 k st"
    with a have "handle_create_session c1 data1 st =
        Inr (st\<lparr>active_sessions :=
                     AList.map_entry k (\<lambda>s. s\<lparr>client_id := Some c1\<rparr>)
                       (if map_of (active_sessions st) k = None
                        then AList.update k empty_session (active_sessions st)
                        else active_sessions st),
                   rooms := enter_room c1 k (rooms st)\<rparr>,
             [Emit c1 ''session_created''
                [(''session_id'', payload_get data1 ''session_id'')]])"
      by (simp add: handle_create_session_valid)
    with a show "handle_create_session c1 data1 st =
           Inr (st1, [Emit c1 ''session_created''
                        [(''session_id'', payload_get data1 ''session_id'')]])"
      by simp
  }
  {
    assume n: "\<not> sid_room_of_other c2 k st"
    from a have "sids st1 = sids st" by (simp add: create_session_store(2))
    with n have "\<not> sid_room_of_other c2 k st1"
      by (simp add: sid_room_of_other_def split: key.splits)
    with a have "handle_create_session c2 data2 st1 =
        Inr (st1\<lparr>active_sessions :=
                     AList.map_entry k (\<lambda>s. s\<lparr>client_id := Some c2\<rparr>)
                       (if map_of (active_sessions st1) k = None
                        then AList.update k empty_session (active_sessions st1)
                        else active_sessions st1),
                   rooms := enter_room c2 k (rooms st1)\<rparr>,
             [Emit c2 ''session_created''
                [(''session_id'', payload_get data2 ''session_id'')]])"
      by (simp add: handle_create_session_valid)
    with a show "handle_create_session c2 data2 st1 =
           Inr (st2, [Emit c2 ''session_created''
                        [(''session_id'', payload_get data2 ''session_id'')]])"
      by simp
  }
qed

theorem create_session_twice_last_writer_wins_witness:
  "unique_keys (run init [Connect ''A'', Connect ''B'', Connect ''C'',
                          CreateSession ''A'' s1_payload, CreateSession ''B'' s1_payload]) \<and>
   handle_create_session ''A'' s1_payload lobby =
     Inr (created, [Emit ''A'' ''session_created'' [(''session_id'', JStr ''s1'')]]) \<and>
   handle_create_session ''B'' s1_payload created =
     Inr (displaced, [Emit ''B'' ''session_created'' [(''session_id'', JStr ''s1'')]]) \<and>
   length (filter (\<lambda>e. fst e = KStr ''s1'') (active_sessions displaced)) = 1 \<and>
   map fst (active_sessions displaced) = map fst (active_sessions created) \<and>
   client_connection displaced (KStr ''s1'') = Some ''B''"
proof -
  have r1: "handle_create_session ''A'' s1_payload lobby =
     Inr (created, [Emit ''A'' ''session_created'' [(''session_id'', JStr ''s1'')]])"
    by (simp add: run_defs s1_payload_def lobby_def created_def sid_rooms_def)
  have r2: "handle_create_session ''B'' s1_payload created =
     Inr (displaced, [Emit ''B'' ''session_created'' [(''session_id'', JStr ''s1'')]])"
    by (simp add: run_defs s1_payload_def displaced_def created_def sid_rooms_def)
  have p: "truthy (payload_get s1_payload ''session_id'')"
    "hash_key (payload_get s1_payload ''session_id'') = Some (KStr ''s1'')"
    by (simp_all add: s1_payload_def payload_get_def)
  have u: "unique_keys lobby" by (simp add: unique_keys_def lobby_def)
  have s: "created = state_after (handle_create_session ''A'' s1_payload lobby)"
    "displaced = state_after (handle_create_session ''B'' s1_payload created)"
    by (simp_all add: r1 r2)
  note inst = create_session_twice_last_writer_wins
    [of "[Connect ''A'', Connect ''B'', Connect ''C'',
          CreateSession ''A'' s1_payload, CreateSession ''B'' s1_payload]"
        lobby s1_payload "KStr ''s1''" s1_payload created "''A''" displaced "''B''"]
  from inst have "unique_keys (run init [Connect ''A'', Connect ''B'', Connect ''C'',
      CreateSession ''A'' s1_payload, CreateSession ''B'' s1_payload])"
    by (rule conjunct1)
  moreover from inst u p s have
    "length (filter (\<lambda>e. fst e = KStr ''s1'') (active_sessions displaced)) = 1 \<and>
     map fst (active_sessions displaced) = map fst (active_sessions created) \<and>
     client_connection displaced (KStr ''s1'') = Some ''B''"
    by blast
  ultimately show ?thesis using r1 r2 by simp
qed

subsection \<open>Every session has a client\<close>

lemma set_map_entry:
  "e \<in> set (AList.map_entry k f xs) \<Longrightarrow> e \<in> set xs \<or> (\<exists>v. (k, v) \<in> set xs \<and> e = (k, f v))"
proof (induction xs)
  case Nil
  then show ?case by simp
next
  case (Cons x xs)
  then show ?case by (cases x) (auto split: if_splits)
qed

lemma map_entry_update_fresh:
  "map_of xs k = None \<Longrightarrow> AList.map_entry k f (AList.update k v xs) = xs @ [(k, f v)]"
  by (induction xs) (auto split: if_splits)

lemma set_registered_client:
  assumes "e \<in> set (AList.map_entry k (\<lambda>s. s\<lparr>client_id := Some c\<rparr>)
                      (if map_of xs k = None then AList.update k empty_session xs else xs))"
  shows "e \<in> set xs \<or> (fst e = k \<and> client_id (snd e) = Some c)"
proof (cases "map_of xs k = None")
  case True
  with assms have "e \<in> set (xs @ [(k, empty_session\<lparr>client_id := Some c\<rparr>)])"
    by (simp add: map_entry_update_fresh)
  then show ?thesis by auto
next
  case False
  with assms have "e \<in> set (AList.map_entry k (\<lambda>s. s\<lparr>client_id := Some c\<rparr>) xs)" by simp
  from set_map_entry [OF this] show ?thesis by auto
qed

lemma client_populated_sessions:
  assumes "client_populated st"
      and "\<And>e. e \<in> set (active_sessions st') \<Longrightarrow>
             e \<in> set (active_sessions st) \<or> client_id (snd e) \<noteq> None"
  shows "client_populated st'"
  using assms unfolding client_populated_def by blast

lemma client_populated_create:
  assumes "client_populated st"
  shows "client_populated (state_after (handle_create_session c data st))"
proof (cases rule: handle_create_session_cases [of data c st])
  case invalid
  with assms show ?thesis by simp
next
  case unhashable
  with assms show ?thesis by simp
next
  case (refused k)
  show ?thesis
  proof (rule client_populated_sessions [OF assms])
    fix e assume "e \<in> set (active_sessions (state_after (handle_create_session c data st)))"
    with refused(4) have "e \<in> set (AList.map_entry k (\<lambda>s. s\<lparr>client_id := Some c\<rparr>)
        (if map_of (active_sessions st) k = None
         then AList.update k empty_session (active_sessions st)
         else active_sessions st))"
      by simp
    from set_registered_client [OF this]
    show "e \<in> set (active_sessions st) \<or> client_id (snd e) \<noteq> None" by auto
  qed
next
  case (registered k)
  show ?thesis
  proof (rule client_populated_sessions [OF assms])
    fix e assume "e \<in> set (active_sessions (state_after (handle_create_session c data st)))"
    with registered(4) have "e \<in> set (AList.map_entry k (\<lambda>s. s\<lparr>client_id := Some c\<rparr>)
        (if map_of (active_sessions st) k = None
         then AList.update k empty_session (active_sessions st)
         else active_sessions st))"
      by simp
    from set_registered_client [OF this]
    show "e \<in> set (active_sessions st) \<or> client_id (snd e) \<noteq> None" by auto
  qed
qed

lemma client_populated_map_compute:
  assumes "client_populated st"
  shows "client_populated
           (st\<lparr>active_sessions :=
                AList.map_entry k (\<lambda>s. s\<lparr>compute_id := Some c\<rparr>) (active_sessions st),
              rooms := rs\<rparr>)"
    and "client_populated
           (st\<lparr>active_sessions :=
                AList.map_entry k (\<lambda>s. s\<lparr>compute_id := Some c\<rparr>) (active_sessions st)\<rparr>)"
  using assms unfolding client_populated_def
  by (auto dest!: set_map_entry)

lemma client_populated_join:
  assumes "client_populated st"
  shows "client_populated (state_after (handle_join_as_compute c data st))"
  using assms
  by (cases rule: handle_join_as_compute_cases [of data c st])
     (simp_all add: client_populated_map_compute)

lemma client_populated_disconnect:
  assumes "client_populated st"
  shows "client_populated (state_after (step st (Disconnect c)))"
proof -
  obtain ks where "state_after (handle_disconnect c st) =
      st\<lparr>active_sessions := filter (\<lambda>x. fst x \<notin> set ks) (active_sessions st)\<rparr>"
    using handle_disconnect_sessions by blast
  then have "state_after (step st (Disconnect c)) =
      close_connection c
        (st\<lparr>active_sessions := filter (\<lambda>x. fst x \<notin> set ks) (active_sessions st)\<rparr>)"
    by (simp only: state_after_disconnect_step)
  with assms show ?thesis
    by (simp add: close_connection_def client_populated_def)
qed

lemma client_populated_step:
  assumes "client_populated st"
  shows "client_populated (state_after (step st ev))"
proof (cases ev)
  case (Connect c)
  with assms show ?thesis
    by (simp add: handle_connect_def open_connection_def client_populated_def)
next
  case (Disconnect c)
  with assms show ?thesis using client_populated_disconnect by simp
next
  case (CreateSession c data)
  with assms show ?thesis using client_populated_create by simp
next
  case (JoinAsCompute c data)
  with assms show ?thesis using client_populated_join by simp
next
  case (Offer c data)
  with assms show ?thesis by (simp add: relay_state_after)
next
  case (Answer c data)
  with assms show ?thesis by (simp add: relay_state_after)
next
  case (IceCandidate c data)
  with assms show ?thesis by (simp add: relay_state_after)
qed

lemma client_populated_run: "client_populated st \<Longrightarrow> client_populated (run st evs)"
  by (induction evs arbitrary: st) (simp_all add: client_populated_step)

text \<open>
  Claim C10. Every handler keeps the invariant that each session record of the store has
  its client role populated: it holds in the empty store the server starts with, a
  handler that returns from a state where it holds leaves a state where it holds, a
  handler that raises does too, and so it holds in every state the server reaches.
\<close>

theorem every_session_has_client:
  "client_populated init \<and>
   (client_populated st \<and> step st ev = Inr (st', outs) \<longrightarrow> client_populated st') \<and>
   (client_populated st \<and> step st ev = Inl (e, st') \<longrightarrow> client_populated st') \<and>
   client_populated (run init evs)"
proof -
  have i: "client_populated init" by (simp add: client_populated_def init_def)
  moreover have "client_populated st \<and> step st ev = Inr (st', outs) \<longrightarrow> client_populated st'"
    using client_populated_step [of st ev] by auto
  moreover have "client_populated st \<and> step st ev = Inl (e, st') \<longrightarrow> client_populated st'"
    using client_populated_step [of st ev] by auto
  moreover have "client_populated (run init evs)" using i by (rule client_populated_run)
  ultimately show ?thesis by blast
qed

theorem every_session_has_client_witness:
  "client_populated created \<and>
   step created (JoinAsCompute ''B'' s1_payload) =
     Inr (paired, [Emit ''B'' ''joined''
                     [(''role'', JStr ''compute''), (''session_id'', JStr ''s1'')]]) \<and>
   client_populated paired \<and>
   client_populated lobby \<and>
   step lobby (CreateSession ''B'' sid_payload) = Inl (ValueError, squatted) \<and>
   client_populated squatted"
proof -
  have c: "client_populated created" by (simp add: client_populated_def created_def)
  have l: "client_populated lobby" by (simp add: client_populated_def lobby_def)
  have s: "step created (JoinAsCompute ''B'' s1_payload) =
     Inr (paired, [Emit ''B'' ''joined''
                     [(''role'', JStr ''compute''), (''session_id'', JStr ''s1'')]])"
    by (simp add: run_defs s1_payload_def created_def paired_def sid_rooms_def)
  have r: "step lobby (CreateSession ''B'' sid_payload) = Inl (ValueError, squatted)"
    by (simp add: run_defs lobby_def squatted_def sid_rooms_def sid_payload_def)
  from every_session_has_client [of created "JoinAsCompute ''B'' s1_payload" paired
      "[Emit ''B'' ''joined'' [(''role'', JStr ''compute''), (''session_id'', JStr ''s1'')]]"]
    c s
  have "client_populated paired" by blast
  moreover from every_session_has_client [of lobby "CreateSession ''B'' sid_payload" squatted
      _ ValueError] l r
  have "client_populated squatted" by blast
  ultimately show ?thesis using c l s r by simp
qed

subsection \<open>Rooms\<close>

lemma members_leave_rooms: "members (leave_rooms c rs) k = removeAll c (members rs k)"
proof -
  have "map_of (map (\<lambda>(room, ms). (room, removeAll c ms)) rs) k =
          map_option (removeAll c) (map_of rs k)"
    by (induction rs) auto
  then show ?thesis
    by (simp add: members_def leave_rooms_def split: option.splits)
qed

lemma rooms_after_disconnect: "rooms (state_after (handle_disconnect c st)) = rooms st"
proof -
  obtain ks where "state_after (handle_disconnect c st) =
      st\<lparr>active_sessions := filter (\<lambda>x. fst x \<notin> set ks) (active_sessions st)\<rparr>"
    using handle_disconnect_sessions by blast
  then show ?thesis by simp
qed

lemma room_after_create:
  "set (members (rooms (state_after (handle_create_session c data st))) room) =
     joined_step room (CreateSession c data, outputs (handle_create_session c data st))
       (set (members (rooms st) room))"
proof (cases rule: handle_create_session_cases [of data c st])
  case invalid
  then show ?thesis by (simp add: error_event_def)
next
  case unhashable
  then show ?thesis by simp
next
  case (refused k)
  then show ?thesis by simp
next
  case (registered k)
  then show ?thesis by (auto simp add: members_enter_room)
qed

lemma room_after_join:
  "set (members (rooms (state_after (handle_join_as_compute c data st))) room) =
     joined_step room (JoinAsCompute c data, outputs (handle_join_as_compute c data st))
       (set (members (rooms st) room))"
proof (cases rule: handle_join_as_compute_cases [of data c st])
  case invalid
  then show ?thesis by (simp add: error_event_def)
next
  case unhashable
  then show ?thesis by simp
next
  case missing
  then show ?thesis by (simp add: error_event_def)
next
  case (refused k)
  then show ?thesis by simp
next
  case (registered k)
  then show ?thesis by (auto simp add: members_enter_room)
qed

lemma room_after_step:
  "set (members (rooms (state_after (step st ev))) room) =
     joined_step room (ev, outputs (step st ev)) (set (members (rooms st) room))"
proof (cases ev)
  case (Connect c)
  then show ?thesis
    by (auto simp add: handle_connect_def open_connection_def members_enter_room)
next
  case (Disconnect c)
  have "rooms (state_after (step st (Disconnect c))) = leave_rooms c (rooms st)"
    by (simp only: state_after_disconnect_step)
       (simp add: close_connection_def rooms_after_disconnect)
  with Disconnect show ?thesis
    by (auto simp only: members_leave_rooms joined_step.simps set_removeAll)
next
  case (CreateSession c data)
  then show ?thesis using room_after_create by simp
next
  case (JoinAsCompute c data)
  then show ?thesis using room_after_join by simp
next
  case (Offer c data)
  then show ?thesis by (simp add: relay_state_after)
next
  case (Answer c data)
  then show ?thesis by (simp add: relay_state_after)
next
  case (IceCandidate c data)
  then show ?thesis by (simp add: relay_state_after)
qed

lemma room_after_run:
  "set (members (rooms (run st evs)) room) =
     joined room (trace st evs) (set (members (rooms st) room))"
proof (induction evs arbitrary: st)
  case Nil
  show ?case by simp
next
  case (Cons ev evs)
  have "set (members (rooms (run st (ev # evs))) room) =
      joined room (trace (state_after (step st ev)) evs)
        (set (members (rooms (state_after (step st ev))) room))"
    using Cons.IH [of "state_after (step st ev)"] by simp
  then show ?case by (simp only: room_after_step trace.simps joined.simps)
qed

lemma registration_keeps_members:
  "set (members (rooms st) room) \<subseteq>
     set (members (rooms (state_after (handle_create_session c data st))) room)"
  "set (members (rooms st) room) \<subseteq>
     set (members (rooms (state_after (handle_join_as_compute c data st))) room)"
proof -
  show "set (members (rooms st) room) \<subseteq>
     set (members (rooms (state_after (handle_create_session c data st))) room)"
    by (cases rule: handle_create_session_cases [of data c st])
       (auto simp add: members_enter_room)
  show "set (members (rooms st) room) \<subseteq>
     set (members (rooms (state_after (handle_join_as_compute c data st))) room)"
    by (cases rule: handle_join_as_compute_cases [of data c st])
       (auto simp add: members_enter_room)
qed

text \<open>
  A broadcast to a room that is named by the identifier of a live connection reaches
  that connection: the offer of \<open>B\<close>, client of the session named \<open>A\<close>, goes to \<open>A\<close>.
\<close>

lemma broadcast_to_sid_room:
  "handle_offer ''B'' [(''session_id'', JStr ''A''), (''offer'', JStr ''SDP-OFFER'')] squatted =
     Inr (squatted, [Broadcast (KStr ''A'') ''offer''
            [(''session_id'', JStr ''A''), (''offer'', JStr ''SDP-OFFER''),
             (''from'', JStr ''B'')]]) \<and>
   recipients squatted (Broadcast (KStr ''A'') ''offer''
            [(''session_id'', JStr ''A''), (''offer'', JStr ''SDP-OFFER''),
             (''from'', JStr ''B'')]) = {''A''}"
  by (simp add: handle_offer_def payload_get_def session_of_def squatted_def sid_rooms_def
        members_def)

text \<open>
  Claim C9, as stated, fails. With \<open>A\<close>, \<open>B\<close> and \<open>C\<close> connected, \<open>A\<close> creates session
  \<open>s1\<close> and \<open>B\<close> then calls \<^verbatim>\<open>create_session\<close> for \<open>s1\<close> too: \<open>B\<close> is now the client and
  the only connection paired under \<open>s1\<close>, while the room \<open>s1\<close> has the two members \<open>A\<close>
  and \<open>B\<close>, and the offer that \<open>B\<close> sends next is broadcast to a room of which the
  displaced \<open>A\<close> is a recipient.
\<close>

theorem room_membership_counterexample:
  "run init [Connect ''A'', Connect ''B'', Connect ''C'',
             CreateSession ''A'' s1_payload, CreateSession ''B'' s1_payload] = displaced \<and>
   paired_connections displaced (KStr ''s1'') = {''B''} \<and>
   set (members (rooms displaced) (KStr ''s1'')) = {''A'', ''B''} \<and>
   set (members (rooms displaced) (KStr ''s1'')) \<noteq> paired_connections displaced (KStr ''s1'') \<and>
   handle_offer ''B'' relay_payload displaced =
     Inr (displaced, [Broadcast (KStr ''s1'') ''offer''
            [(''session_id'', JStr ''s1''), (''offer'', JStr ''SDP-OFFER''),
             (''from'', JStr ''B'')]]) \<and>
   ''A'' \<in> recipients displaced (Broadcast (KStr ''s1'') ''offer''
            [(''session_id'', JStr ''s1''), (''offer'', JStr ''SDP-OFFER''),
             (''from'', JStr ''B'')])"
proof -
  have "run init ([Connect ''A'', Connect ''B'', Connect ''C''] @
      [CreateSession ''A'' s1_payload] @ [CreateSession ''B'' s1_payload]) = displaced"
    by (simp only: run_append lobby_reachable created_reachable displaced_reachable)
  then have r: "run init [Connect ''A'', Connect ''B'', Connect ''C'',
      CreateSession ''A'' s1_payload, CreateSession ''B'' s1_payload] = displaced"
    by simp
  have p: "paired_connections displaced (KStr ''s1'') = {''B''}"
    by (simp add: paired_connections_def client_connection_def compute_connection_def
          displaced_def)
  have m: "set (members (rooms displaced) (KStr ''s1'')) = {''A'', ''B''}"
    by (auto simp add: members_def displaced_def sid_rooms_def)
  have o: "handle_offer ''B'' relay_payload displaced =
     Inr (displaced, [Broadcast (KStr ''s1'') ''offer''
            [(''session_id'', JStr ''s1''), (''offer'', JStr ''SDP-OFFER''),
             (''from'', JStr ''B'')]])"
    by (simp add: handle_offer_def relay_payload_def payload_get_def session_of_def
          displaced_def)
  from p m have "set (members (rooms displaced) (KStr ''s1'')) \<noteq>
      paired_connections displaced (KStr ''s1'')"
    by auto
  with r p m o show ?thesis by simp
qed

text \<open>
  Claim C9, amended. In every state the server reaches, the members of a room are
  exactly the connections that joined it and have not disconnected since. A connection
  joins the room named by a session identifier by a \<^verbatim>\<open>create_session\<close> or
  \<^verbatim>\<open>join_as_compute\<close> call for that identifier that is confirmed, it joins the room
  named by its own identifier when it connects, and nothing but its disconnect takes it
  out of a room. A registration removes nobody from any room: a connection that a
  later registration displaces from its role is a member as before and receives the
  broadcasts to the room.
\<close>

theorem room_members_are_the_joined:
  "set (members (rooms (run init evs)) room) = joined room (trace init evs) {} \<and>
   set (members (rooms st) room) \<subseteq>
     set (members (rooms (state_after (handle_create_session c data st))) room) \<and>
   set (members (rooms st) room) \<subseteq>
     set (members (rooms (state_after (handle_join_as_compute c data st))) room)"
proof -
  have "set (members (rooms (run init evs)) room) =
      joined room (trace init evs) (set (members (rooms init) room))"
    by (rule room_after_run)
  then have "set (members (rooms (run init evs)) room) = joined room (trace init evs) {}"
    by (simp add: init_def members_def)
  then show ?thesis using registration_keeps_members by blast
qed

theorem room_members_are_the_joined_witness:
  "trace init [Connect ''A'', Connect ''B'', CreateSession ''A'' s1_payload,
               CreateSession ''B'' s1_payload, Disconnect ''B''] =
     [(Connect ''A'',
       [Emit ''A'' ''connected'' [(''message'', JStr ''Connected to NeuraX signaling server'')]]),
      (Connect ''B'',
       [Emit ''B'' ''connected'' [(''message'', JStr ''Connected to NeuraX signaling server'')]]),
      (CreateSession ''A'' s1_payload,
       [Emit ''A'' ''session_created'' [(''session_id'', JStr ''s1'')]]),
      (CreateSession ''B'' s1_payload,
       [Emit ''B'' ''session_created'' [(''session_id'', JStr ''s1'')]]),
      (Disconnect ''B'', [])] \<and>
   set (members (rooms (run init [Connect ''A'', Connect ''B'', CreateSession ''A'' s1_payload,
                                  CreateSession ''B'' s1_payload, Disconnect ''B'']))
          (KStr ''s1'')) = {''A''} \<and>
   set (members (rooms created) (KStr ''s1'')) = {''A''} \<and>
   state_after (handle_create_session ''B'' s1_payload created) = displaced \<and>
   ''A'' \<in> set (members (rooms displaced) (KStr ''s1''))"
proof -
  let ?evs = "[Connect ''A'', Connect ''B'', CreateSession ''A'' s1_payload,
               CreateSession ''B'' s1_payload, Disconnect ''B'']"
  have t: "trace init ?evs =
     [(Connect ''A'',
       [Emit ''A'' ''connected'' [(''message'', JStr ''Connected to NeuraX signaling server'')]]),
      (Connect ''B'',
       [Emit ''B'' ''connected'' [(''message'', JStr ''Connected to NeuraX signaling server'')]]),
      (CreateSession ''A'' s1_payload,
       [Emit ''A'' ''session_created'' [(''session_id'', JStr ''s1'')]]),
      (CreateSession ''B'' s1_payload,
       [Emit ''B'' ''session_created'' [(''session_id'', JStr ''s1'')]]),
      (Disconnect ''B'', [])]"
    by (simp add: run_defs s1_payload_def)
  have j: "joined (KStr ''s1'') (trace init ?evs) {} = {''A''}"
    unfolding t by (auto simp add: s1_payload_def payload_get_def)
  have d: "state_after (handle_create_session ''B'' s1_payload created) = displaced"
    by (simp add: run_defs s1_payload_def displaced_def created_def sid_rooms_def)
  have m: "set (members (rooms created) (KStr ''s1'')) = {''A''}"
    by (simp add: members_def created_def sid_rooms_def)
  note inst = room_members_are_the_joined [of ?evs "KStr ''s1''" created "''B''" s1_payload]
  from inst j have "set (members (rooms (run init ?evs)) (KStr ''s1'')) = {''A''}"
    by simp
  moreover from inst d m have "''A'' \<in> set (members (rooms displaced) (KStr ''s1''))"
    by auto
  ultimately show ?thesis using t d m by simp
qed

end
